theory Spec2Isabelle
  imports Complex_Main "HOL-Library.Sublist"
begin

section \<open>Python text primitives\<close>

text \<open>
  Texts are Python \<^verbatim>\<open>str\<close> values.  The model covers the code points below 256:
  a \<^typ>\<open>char\<close> is read as the code point with that number.  The character classes
  below are the ones that Python's \<^verbatim>\<open>re\<close> module and \<^verbatim>\<open>str\<close> methods use on that range.
\<close>

definition LF :: char where
  "LF = CHR 0x0A"

definition CR :: char where
  "CR = CHR 0x0D"

definition code :: "char \<Rightarrow> nat" where
  "code c = of_char c"

text \<open>\<^verbatim>\<open>\d\<close>: the decimal digits.\<close>

definition is_digit :: "char \<Rightarrow> bool" where
  "is_digit c = (48 \<le> code c \<and> code c \<le> 57)"

text \<open>\<^verbatim>\<open>\s\<close> and \<^verbatim>\<open>str.isspace\<close>: tab to carriage return, the separators
  \<^verbatim>\<open>\x1c\<close> to \<^verbatim>\<open>\x1f\<close>, space, \<^verbatim>\<open>\x85\<close> and the no-break space.\<close>

definition is_space :: "char \<Rightarrow> bool" where
  "is_space c = ((9 \<le> code c \<and> code c \<le> 13) \<or> (28 \<le> code c \<and> code c \<le> 32)
     \<or> code c = 133 \<or> code c = 160)"

text \<open>\<^verbatim>\<open>\w\<close>: alphanumeric characters and the underscore.\<close>

definition is_word :: "char \<Rightarrow> bool" where
  "is_word c = (is_digit c \<or> (65 \<le> code c \<and> code c \<le> 90) \<or> code c = 95
     \<or> (97 \<le> code c \<and> code c \<le> 122)
     \<or> code c \<in> {170, 178, 179, 181, 185, 186, 188, 189, 190}
     \<or> (192 \<le> code c \<and> code c \<le> 214) \<or> (216 \<le> code c \<and> code c \<le> 246)
     \<or> 248 \<le> code c)"

text \<open>The line boundaries of \<^verbatim>\<open>str.splitlines\<close>.\<close>

definition is_linebreak :: "char \<Rightarrow> bool" where
  "is_linebreak c = ((10 \<le> code c \<and> code c \<le> 13) \<or> (28 \<le> code c \<and> code c \<le> 30)
     \<or> code c = 133)"

text \<open>\<^verbatim>\<open>str.strip()\<close>.\<close>

definition strip :: "string \<Rightarrow> string" where
  "strip s = rev (dropWhile is_space (rev (dropWhile is_space s)))"

text \<open>The white space that \<^verbatim>\<open>int\<close> and \<^verbatim>\<open>float\<close> drop around a numeral: the ASCII
  white space, and the white space beyond ASCII, which they first turn into spaces.
  The separators \<^verbatim>\<open>\x1c\<close> to \<^verbatim>\<open>\x1f\<close> are not dropped: \<^verbatim>\<open>int("\x1f5")\<close> raises
  ValueError.\<close>

definition is_number_space :: "char \<Rightarrow> bool" where
  "is_number_space c = ((9 \<le> code c \<and> code c \<le> 13) \<or> code c = 32
     \<or> code c = 133 \<or> code c = 160)"

definition strip_number :: "string \<Rightarrow> string" where
  "strip_number s = rev (dropWhile is_number_space (rev (dropWhile is_number_space s)))"

text \<open>\<^verbatim>\<open>str.splitlines()\<close>: \<^verbatim>\<open>\r\n\<close> is one boundary, and a text that ends
  with a boundary has no empty last line.\<close>

definition cons_line :: "char \<Rightarrow> string list \<Rightarrow> string list" where
  "cons_line c ls = (case ls of [] \<Rightarrow> [[c]] | l # ls' \<Rightarrow> (c # l) # ls')"

fun splitlines :: "string \<Rightarrow> string list" where
  "splitlines [] = []"
| "splitlines [c] = (if is_linebreak c then [[]] else [[c]])"
| "splitlines (c # d # ds) =
     (if c = CR \<and> d = LF then [] # splitlines ds
      else if is_linebreak c then [] # splitlines (d # ds)
      else cons_line c (splitlines (d # ds)))"

text \<open>
  The positions where \<^verbatim>\<open>^\<close> matches under \<^verbatim>\<open>re.MULTILINE\<close> are the start of the
  text and the position after every \<^verbatim>\<open>\n\<close>.  \<open>bol_suffixes\<close> lists, in order, the
  rest of the text at each of these positions: what a pattern anchored with
  \<^verbatim>\<open>^\<close> is matched against.
\<close>

fun after_newlines :: "string \<Rightarrow> string list" where
  "after_newlines [] = []"
| "after_newlines (c # cs) = (if c = LF then cs # after_newlines cs else after_newlines cs)"

definition bol_suffixes :: "string \<Rightarrow> string list" where
  "bol_suffixes s = s # after_newlines s"

text \<open>\<^verbatim>\<open>len(re.findall(r"^lit", content, re.MULTILINE))\<close> for a literal without a
  newline: the matches start at distinct line starts, so none overlaps another.\<close>

definition count_bol :: "string \<Rightarrow> string \<Rightarrow> nat" where
  "count_bol lit content = length (filter (prefix lit) (bol_suffixes content))"

text \<open>\<^verbatim>\<open>str(n)\<close> and \<^verbatim>\<open>f"{n}"\<close> for an integer.\<close>

fun str_nat :: "nat \<Rightarrow> string" where
  "str_nat n = (if n < 10 then [''0123456789'' ! n]
     else str_nat (n div 10) @ [''0123456789'' ! (n mod 10)])"

declare str_nat.simps [simp del]

definition str_int :: "int \<Rightarrow> string" where
  "str_int i = (if i < 0 then CHR ''-'' # str_nat (nat (- i)) else str_nat (nat i))"

section \<open>state.py: goal state\<close>

text \<open>The float that \<^verbatim>\<open>float()\<close> returns for an accepted literal; its numeric value is
  not modelled, the literal stands for it.\<close>

datatype float_value = FloatOf string

record GoalState =
  name :: string
  status :: string
  priority :: string
  last_activity :: string
  completed_tasks :: int
  total_tasks :: int
  blocked_tasks :: int
  review_tasks :: int
  total_cost_usd :: float_value
  has_replan :: bool
  has_feedback :: bool
  prd_summary :: string
  repo_name :: string
  path :: string

text \<open>\<^verbatim>\<open>GoalState.progress\<close>.\<close>

definition progress :: "GoalState \<Rightarrow> string" where
  "progress g = (if total_tasks g = 0 then ''no tasks''
     else str_int (completed_tasks g) @ ''/'' @ str_int (total_tasks g))"

text \<open>\<^verbatim>\<open>count_tasks\<close>; the argument is the content of IMPLEMENTATION.md, \<open>None\<close> when
  the file does not exist.  The result is (total, completed, blocked, review).\<close>

definition count_tasks :: "string option \<Rightarrow> nat \<times> nat \<times> nat \<times> nat" where
  "count_tasks impl = (case impl of
       None \<Rightarrow> (0, 0, 0, 0)
     | Some content \<Rightarrow>
         (count_bol ''- ['' content, count_bol ''- [x]'' content,
          count_bol ''- [BLOCKED'' content, count_bol ''- [REVIEW'' content))"

text \<open>The task lines that \<^verbatim>\<open>count_tasks\<close> counts in its total and under none of its
  three statuses: the pending ones.\<close>

definition pending_tasks :: "string option \<Rightarrow> nat" where
  "pending_tasks impl = (case impl of
       None \<Rightarrow> 0
     | Some content \<Rightarrow> length (filter (\<lambda>s. prefix ''- ['' s \<and> \<not> prefix ''- [x]'' s
          \<and> \<not> prefix ''- [BLOCKED'' s \<and> \<not> prefix ''- [REVIEW'' s) (bol_suffixes content)))"

section \<open>state.py: dependencies of review tasks\<close>

record AttentionItem =
  goal_name :: string
  item_type :: string
  title :: string
  task_id :: "string option"
  question_id :: "string option"

text \<open>\<^verbatim>\<open>re.findall(r"T\d+", s)\<close>: the matches from left to right, each with as many
  digits as follow, the search going on after the match.\<close>

function findall_task_ids :: "string \<Rightarrow> string list" where
  "findall_task_ids [] = []"
| "findall_task_ids (c # cs) =
     (if c = CHR ''T'' \<and> takeWhile is_digit cs \<noteq> []
      then (c # takeWhile is_digit cs) # findall_task_ids (dropWhile is_digit cs)
      else findall_task_ids cs)"
  by pat_completeness auto
termination
  by (relation "measure length") (auto simp: less_Suc_eq_le length_dropWhile_le)

text \<open>\<^verbatim>\<open>\b\<close> between two neighbours, \<open>None\<close> for an end of the text: exactly one of
  them is a word character.\<close>

definition boundary :: "char option \<Rightarrow> char option \<Rightarrow> bool" where
  "boundary p n = ((case p of None \<Rightarrow> False | Some c \<Rightarrow> is_word c)
     \<noteq> (case n of None \<Rightarrow> False | Some c \<Rightarrow> is_word c))"

text \<open>The pattern \<^verbatim>\<open>rf"^- \[x\] {dep_id}\b"\<close> tried at one line start, \<open>s\<close> being the
  text from there on.\<close>

definition match_done :: "string \<Rightarrow> string \<Rightarrow> bool" where
  "match_done dep_id s =
     (let lit = ''- [x] '' @ dep_id in
      prefix lit s \<and>
      boundary (Some (last lit)) (case drop (length lit) s of [] \<Rightarrow> None | c # _ \<Rightarrow> Some c))"

text \<open>\<^verbatim>\<open>re.search(pattern, content, re.MULTILINE)\<close> for that pattern, as a truth value.\<close>

definition search_done :: "string \<Rightarrow> string \<Rightarrow> bool" where
  "search_done dep_id content = list_ex (match_done dep_id) (bol_suffixes content)"

text \<open>The loop of \<^verbatim>\<open>_are_depends_satisfied\<close> over the identifiers: the first one
  without a done line returns False.\<close>

fun all_deps_done :: "string list \<Rightarrow> string \<Rightarrow> bool" where
  "all_deps_done [] content = True"
| "all_deps_done (dep_id # dep_ids) content =
     (if \<not> search_done dep_id content then False else all_deps_done dep_ids content)"

definition are_depends_satisfied :: "string \<Rightarrow> string \<Rightarrow> bool" where
  "are_depends_satisfied depends_line content =
     (let dep_ids = findall_task_ids depends_line in
      if dep_ids = [] then True else all_deps_done dep_ids content)"

text \<open>\<^verbatim>\<open>(.+?)\]\<close>: the group has at least one character, none a newline, and ends
  before the first \<^verbatim>\<open>]\<close> after its first character.\<close>

fun lazy_until_bracket :: "string \<Rightarrow> string \<Rightarrow> string option" where
  "lazy_until_bracket acc [] = None"
| "lazy_until_bracket acc (c # cs) =
     (if c = CHR '']'' then Some acc
      else if c = LF then None
      else lazy_until_bracket (acc @ [c]) cs)"

definition group_then_bracket :: "string \<Rightarrow> string option" where
  "group_then_bracket s = (case s of
       [] \<Rightarrow> None
     | c # cs \<Rightarrow> if c = LF then None else lazy_until_bracket [c] cs)"

text \<open>\<^verbatim>\<open>\s*(.+?)\]\<close>: the greedy \<^verbatim>\<open>\s*\<close> gives characters back one by one when the
  rest of the pattern fails.\<close>

fun spaces_then_group :: "string \<Rightarrow> string option" where
  "spaces_then_group [] = group_then_bracket []"
| "spaces_then_group (c # cs) =
     (if is_space c
      then (case spaces_then_group cs of
              Some g \<Rightarrow> Some g
            | None \<Rightarrow> group_then_bracket (c # cs))
      else group_then_bracket (c # cs))"

text \<open>\<^verbatim>\<open>re.match(r"^- \[REVIEW:\s*(.+?)\]", line)\<close>: group 1 of the match, if any.\<close>

definition match_review :: "string \<Rightarrow> string option" where
  "match_review line =
     (if prefix ''- [REVIEW:'' line then spaces_then_group (drop 10 line) else None)"

text \<open>\<^verbatim>\<open>_parse_task_id\<close>: \<^verbatim>\<open>re.search(r"\bT(\d+)", line)\<close>.  The flag says whether the
  character before the position is a word character.\<close>

fun search_task_id :: "bool \<Rightarrow> string \<Rightarrow> string option" where
  "search_task_id prev [] = None"
| "search_task_id prev (c # cs) =
     (if c = CHR ''T'' \<and> \<not> prev \<and> takeWhile is_digit cs \<noteq> []
      then Some (c # takeWhile is_digit cs)
      else search_task_id (is_word c) cs)"

definition parse_task_id :: "string \<Rightarrow> string option" where
  "parse_task_id line = search_task_id False line"

text \<open>\<^verbatim>\<open>re.match(r"\s+-\s+Depends:\s*(.*)", sub)\<close>: group 1 of the match, if any.\<close>

definition match_depends :: "string \<Rightarrow> string option" where
  "match_depends sub =
     (if takeWhile is_space sub = [] then None
      else (case dropWhile is_space sub of
          [] \<Rightarrow> None
        | c # r \<Rightarrow>
            if c \<noteq> CHR ''-'' \<or> takeWhile is_space r = [] then None
            else if prefix ''Depends:'' (dropWhile is_space r)
              then Some (takeWhile (\<lambda>c. c \<noteq> LF)
                     (dropWhile is_space (drop 8 (dropWhile is_space r))))
              else None))"

text \<open>The inner loop of \<^verbatim>\<open>load_review_tasks\<close>, \<^verbatim>\<open>for j in range(i + 1, min(i + 10,
  len(lines)))\<close>, from index \<open>j\<close> on; the result is \<^verbatim>\<open>depends_satisfied\<close>.\<close>

function look_ahead :: "string list \<Rightarrow> string \<Rightarrow> nat \<Rightarrow> nat \<Rightarrow> bool" where
  "look_ahead lines content j stop =
     (if j < stop
      then (let sub = lines ! j in
            if prefix ''- ['' sub then True
            else (case match_depends sub of
                Some g \<Rightarrow> are_depends_satisfied g content
              | None \<Rightarrow> look_ahead lines content (j + 1) stop))
      else True)"
  by pat_completeness auto
termination
  by (relation "measure (\<lambda>(lines, content, j, stop). stop - j)") auto

declare look_ahead.simps [simp del]

text \<open>The body of the outer loop for the line at index \<open>i\<close>: the items it appends.\<close>

definition review_item :: "string \<Rightarrow> string list \<Rightarrow> nat \<Rightarrow> string \<Rightarrow> AttentionItem" where
  "review_item goal lines i g =
     \<lparr>goal_name = goal, item_type = ''review'', title = strip g,
      task_id = parse_task_id (lines ! i), question_id = None\<rparr>"

definition review_step :: "string \<Rightarrow> string list \<Rightarrow> string \<Rightarrow> nat \<Rightarrow> AttentionItem list" where
  "review_step goal lines content i = (case match_review (lines ! i) of
       None \<Rightarrow> []
     | Some g \<Rightarrow>
         if look_ahead lines content (i + 1) (min (i + 10) (length lines))
         then [review_item goal lines i g] else [])"

function review_loop ::
  "string \<Rightarrow> string list \<Rightarrow> string \<Rightarrow> nat \<Rightarrow> AttentionItem list \<Rightarrow> AttentionItem list" where
  "review_loop goal lines content i items =
     (if i < length lines
      then review_loop goal lines content (i + 1) (items @ review_step goal lines content i)
      else items)"
  by pat_completeness auto
termination
  by (relation "measure (\<lambda>(goal, lines, content, i, items). length lines - i)") auto

declare review_loop.simps [simp del]

text \<open>\<^verbatim>\<open>load_review_tasks\<close>; the second argument is the content of the goal's
  IMPLEMENTATION.md, \<open>None\<close> when the file does not exist.\<close>

definition load_review_tasks :: "string \<Rightarrow> string option \<Rightarrow> AttentionItem list" where
  "load_review_tasks goal impl = (case impl of
       None \<Rightarrow> []
     | Some content \<Rightarrow> review_loop goal (splitlines content) content 0 [])"

text \<open>The words of the specification.  The lines of a document as \<^verbatim>\<open>^\<close> sees them; a
  done line for an identifier, with the word boundary after it; the window of at most 9
  lines after a task line, up to the next task line; the first Depends sub-line of the
  window; a review task is actionable when that sub-line is absent or satisfied.\<close>

definition lines_nl :: "string \<Rightarrow> string list" where
  "lines_nl content = map (takeWhile (\<lambda>c. c \<noteq> LF)) (bol_suffixes content)"

definition done_line :: "string \<Rightarrow> string \<Rightarrow> bool" where
  "done_line tid l = (prefix (''- [x] '' @ tid) l \<and>
     (case drop (length (''- [x] '' @ tid)) l of [] \<Rightarrow> True | c # _ \<Rightarrow> \<not> is_word c))"

definition spec_window :: "string list \<Rightarrow> nat \<Rightarrow> string list" where
  "spec_window lines i = takeWhile (\<lambda>l. \<not> prefix ''- ['' l) (take 9 (drop (i + 1) lines))"

text \<open>A Depends sub-line \<open>l\<close> with the dependency text \<open>d\<close>: white space, a dash, white
  space, the word \<^verbatim>\<open>Depends:\<close>, and then \<open>d\<close> after any white space.\<close>

definition depends_line :: "string \<Rightarrow> string \<Rightarrow> bool" where
  "depends_line l d =
     (\<exists>ws1 ws2 rest.
        ws1 \<noteq> [] \<and> (\<forall>c\<in>set ws1. is_space c) \<and> ws2 \<noteq> [] \<and> (\<forall>c\<in>set ws2. is_space c)
        \<and> l = ws1 @ ''-'' @ ws2 @ ''Depends:'' @ rest
        \<and> d = dropWhile is_space rest)"

definition is_depends_line :: "string \<Rightarrow> bool" where
  "is_depends_line l = (\<exists>d. depends_line l d)"

definition spec_first_depends :: "string list \<Rightarrow> string option" where
  "spec_first_depends w = List.find is_depends_line w"

definition spec_actionable :: "string list \<Rightarrow> string \<Rightarrow> nat \<Rightarrow> bool" where
  "spec_actionable lines content i = (case spec_first_depends (spec_window lines i) of
       None \<Rightarrow> True
     | Some l \<Rightarrow> (\<forall>d. depends_line l d \<longrightarrow> are_depends_satisfied d content))"

text \<open>A review line: it starts with \<^verbatim>\<open>- [REVIEW:\<close>, and a closing bracket follows
  after at least one further character, the note.\<close>

definition review_line :: "string \<Rightarrow> bool" where
  "review_line l = (prefix ''- [REVIEW:'' l \<and> CHR '']'' \<in> set (drop 11 l))"

section \<open>state.py: loading a goal\<close>

text \<open>The exceptions that the modelled functions let escape.\<close>

datatype py_error = ValueError | AttributeError | OverflowError | OSError

text \<open>\<^verbatim>\<open>dict.get(key, default)\<close>.\<close>

definition dict_get :: "('k \<rightharpoonup> 'v) \<Rightarrow> 'k \<Rightarrow> 'v \<Rightarrow> 'v" where
  "dict_get m k d = (case m k of None \<Rightarrow> d | Some v \<Rightarrow> v)"

text \<open>
  \<^verbatim>\<open>float(s)\<close> for a string: white space around the literal is dropped, and the
  literal is an optional sign followed by \<^verbatim>\<open>inf\<close>, \<^verbatim>\<open>infinity\<close> or \<^verbatim>\<open>nan\<close> in any
  case, or by a decimal number with an optional exponent.  Digits may be grouped by
  single underscores.  Any other string raises ValueError.
\<close>

fun digitpart_rest :: "string \<Rightarrow> string" where
  "digitpart_rest [] = []"
| "digitpart_rest [c] = (if is_digit c then [] else [c])"
| "digitpart_rest (c # d # ds) =
     (if is_digit c then digitpart_rest (d # ds)
      else if c = CHR ''_'' \<and> is_digit d then digitpart_rest ds
      else c # d # ds)"

text \<open>The rest of the text after a digit part at its head, \<open>None\<close> when there is none.\<close>

definition take_digitpart :: "string \<Rightarrow> string option" where
  "take_digitpart s = (case s of
       [] \<Rightarrow> None
     | c # cs \<Rightarrow> if is_digit c then Some (digitpart_rest cs) else None)"

definition drop_sign :: "string \<Rightarrow> string" where
  "drop_sign s = (case s of
       [] \<Rightarrow> []
     | c # cs \<Rightarrow> if c = CHR ''+'' \<or> c = CHR ''-'' then cs else s)"

text \<open>The rest of the text after an optional exponent, \<open>None\<close> for an exponent mark
  without digits.\<close>

definition take_exponent :: "string \<Rightarrow> string option" where
  "take_exponent s = (case s of
       [] \<Rightarrow> Some []
     | c # cs \<Rightarrow> if c = CHR ''e'' \<or> c = CHR ''E'' then take_digitpart (drop_sign cs) else Some s)"

definition is_float_number :: "string \<Rightarrow> bool" where
  "is_float_number s = (case take_digitpart s of
       Some r \<Rightarrow> (case r of
           [] \<Rightarrow> True
         | c # r' \<Rightarrow>
             if c = CHR ''.''
             then (case take_digitpart r' of
                     Some r'' \<Rightarrow> take_exponent r'' = Some []
                   | None \<Rightarrow> take_exponent r' = Some [])
             else take_exponent r = Some [])
     | None \<Rightarrow> (case s of
           [] \<Rightarrow> False
         | c # r' \<Rightarrow> c = CHR ''.'' \<and> (case take_digitpart r' of
                     Some r'' \<Rightarrow> take_exponent r'' = Some []
                   | None \<Rightarrow> False)))"

definition lower :: "char \<Rightarrow> char" where
  "lower c = (if 65 \<le> code c \<and> code c \<le> 90 then char_of (code c + 32) else c)"

definition py_float :: "string \<Rightarrow> py_error + float_value" where
  "py_float s =
     (let t = strip_number s; u = drop_sign t in
      if map lower u = ''inf'' \<or> map lower u = ''infinity'' \<or> map lower u = ''nan''
         \<or> is_float_number u
      then Inr (FloatOf t) else Inl ValueError)"

text \<open>\<^verbatim>\<open>parse_state_md\<close>: the loop over the lines, then the function; the argument is the
  content of state.md, \<open>None\<close> when the file does not exist.\<close>

fun parse_state_lines :: "string list \<Rightarrow> (string \<rightharpoonup> string) \<Rightarrow> (string \<rightharpoonup> string)" where
  "parse_state_lines [] result = result"
| "parse_state_lines (l # ls) result =
     (let line = strip l in
      if CHR '':'' \<in> set line \<and> \<not> prefix ''#'' line
      then parse_state_lines ls
             (result(strip (takeWhile (\<lambda>c. c \<noteq> CHR '':'') line)
                \<mapsto> strip (drop 1 (dropWhile (\<lambda>c. c \<noteq> CHR '':'') line))))
      else parse_state_lines ls result)"

definition parse_state_md :: "string option \<Rightarrow> (string \<rightharpoonup> string)" where
  "parse_state_md file = (case file of
       None \<Rightarrow> Map.empty
     | Some text \<Rightarrow> parse_state_lines (splitlines text) Map.empty)"

text \<open>\<^verbatim>\<open>get_prd_summary\<close>.\<close>

fun first_summary_line :: "string list \<Rightarrow> string" where
  "first_summary_line [] = ''''"
| "first_summary_line (l # ls) =
     (let line = strip l in
      if line \<noteq> [] \<and> \<not> prefix ''#'' line \<and> \<not> prefix ''<!--'' line
      then take 120 line else first_summary_line ls)"

definition get_prd_summary :: "string option \<Rightarrow> string" where
  "get_prd_summary file = (case file of
       None \<Rightarrow> ''''
     | Some text \<Rightarrow> first_summary_line (splitlines text))"

text \<open>A goal directory: its name and path, the contents of the three documents (\<open>None\<close>
  for a file that does not exist) and the presence of the two marker files.\<close>

record goal_dir =
  dir_name :: string
  dir_path :: string
  state_md :: "string option"
  implementation_md :: "string option"
  prd_md :: "string option"
  replan_exists :: bool
  feedback_exists :: bool

text \<open>\<^verbatim>\<open>load_goal\<close>.  The only call that can raise is \<^verbatim>\<open>float\<close>.\<close>

definition load_goal :: "goal_dir \<Rightarrow> py_error + GoalState" where
  "load_goal d =
     (let state_data = parse_state_md (state_md d) in
      case count_tasks (implementation_md d) of (n_total, n_done, n_blocked, n_review) \<Rightarrow>
      (case py_float (dict_get state_data ''total_cost_usd'' ''0'') of
         Inl e \<Rightarrow> Inl e
       | Inr cost \<Rightarrow> Inr
           \<lparr>name = dir_name d,
            status = dict_get state_data ''status'' ''created'',
            priority = dict_get state_data ''priority'' ''normal'',
            last_activity = dict_get state_data ''last_activity'' '''',
            completed_tasks = int n_done,
            total_tasks = int n_total,
            blocked_tasks = int n_blocked,
            review_tasks = int n_review,
            total_cost_usd = cost,
            has_replan = replan_exists d,
            has_feedback = feedback_exists d,
            prd_summary = get_prd_summary (prd_md d),
            repo_name = dict_get state_data ''repo'' '''',
            path = dir_path d\<rparr>))"

section \<open>sandbox.py: credentials\<close>

text \<open>
  The value that \<^verbatim>\<open>json.loads\<close> returns.  A float is a rational number, an infinity or
  a NaN (\<^verbatim>\<open>json.loads\<close> accepts \<^verbatim>\<open>Infinity\<close> and \<^verbatim>\<open>NaN\<close>); an object is the list of
  the items of the dict, with distinct keys.
\<close>

datatype json_float = Finite rat | PosInf | NegInf | NaN

datatype json =
    JNull
  | JBool bool
  | JInt int
  | JFloat json_float
  | JStr string
  | JArr "json list"
  | JObj "(string \<times> json) list"

text \<open>The exceptions of \<^verbatim>\<open>int(x)\<close>.\<close>

datatype int_error = IntValueError | IntTypeError | IntOverflowError

text \<open>\<^verbatim>\<open>int(s)\<close> for a string: white space around, an optional sign, and digits that
  may be grouped by single underscores.\<close>

definition nat_of_digits :: "string \<Rightarrow> nat" where
  "nat_of_digits s = foldl (\<lambda>n c. 10 * n + (code c - 48)) 0 (filter is_digit s)"

definition py_int_of_str :: "string \<Rightarrow> int_error + int" where
  "py_int_of_str s =
     (let t = strip_number s; u = drop_sign t in
      if take_digitpart u = Some []
      then Inr (if prefix ''-'' t then - int (nat_of_digits u) else int (nat_of_digits u))
      else Inl IntValueError)"

text \<open>\<^verbatim>\<open>int(x)\<close> for a decoded JSON value: a float is truncated towards zero.\<close>

definition py_int :: "json \<Rightarrow> int_error + int" where
  "py_int x = (case x of
       JInt n \<Rightarrow> Inr n
     | JBool b \<Rightarrow> Inr (if b then 1 else 0)
     | JFloat f \<Rightarrow> (case f of
           Finite r \<Rightarrow> Inr (if 0 \<le> r then \<lfloor>r\<rfloor> else \<lceil>r\<rceil>)
         | NaN \<Rightarrow> Inl IntValueError
         | _ \<Rightarrow> Inl IntOverflowError)
     | JStr s \<Rightarrow> py_int_of_str s
     | _ \<Rightarrow> Inl IntTypeError)"

text \<open>What reading and decoding the credentials file gives: the text of the exception
  (\<^verbatim>\<open>json.JSONDecodeError\<close> or \<^verbatim>\<open>OSError\<close>), or the decoded value.\<close>

datatype creds_read = ReadFailed string | Loaded json

definition expired_message :: string where
  "expired_message = ''Claude OAuth token has expired.'' @ [LF]
     @ ''Run 'claude' in your terminal to re-authenticate, then retry.''"

definition expiry_warning :: "int \<Rightarrow> string" where
  "expiry_warning remaining_min =
     ''WARNING: Claude OAuth token expires in ~'' @ str_int remaining_min @ '' minutes.''"

text \<open>\<^verbatim>\<open>_check_token_expiry\<close>, with the current time in milliseconds as an argument.
  \<^verbatim>\<open>data.get\<close> on a value that is not a dict raises AttributeError; of the exceptions
  of \<^verbatim>\<open>int\<close>, ValueError and TypeError are caught.\<close>

definition check_token_expiry :: "creds_read \<Rightarrow> int \<Rightarrow> py_error + (bool \<times> string)" where
  "check_token_expiry rd now_ms = (case rd of
       ReadFailed e \<Rightarrow> Inr (False, ''Failed to read credentials file: '' @ e)
     | Loaded data \<Rightarrow> (case data of
           JObj items \<Rightarrow>
             (let oauth_data = (case map_of items ''claudeAiOauth'' of
                                  None \<Rightarrow> JObj [] | Some v \<Rightarrow> v);
                  expires_at = (case oauth_data of
                                  JObj oauth \<Rightarrow> (case map_of oauth ''expiresAt'' of
                                                    None \<Rightarrow> JNull | Some v \<Rightarrow> v)
                                | _ \<Rightarrow> JNull)
              in if expires_at = JNull then Inr (True, '''')
                 else (case py_int expires_at of
                     Inl IntOverflowError \<Rightarrow> Inl OverflowError
                   | Inl _ \<Rightarrow> Inr (True, '''')
                   | Inr expires \<Rightarrow>
                       if expires \<le> now_ms then Inr (False, expired_message)
                       else if expires - now_ms \<le> 30 * 60 * 1000
                         then Inr (True, expiry_warning ((expires - now_ms) div 60000))
                       else Inr (True, '''')))
         | _ \<Rightarrow> Inl AttributeError))"

text \<open>The nested expiry field of the decoded credentials, in the words of the
  specification: the entry \<^verbatim>\<open>expiresAt\<close> of the object under \<^verbatim>\<open>claudeAiOauth\<close>.\<close>

definition expiry_field :: "(string \<times> json) list \<Rightarrow> json option" where
  "expiry_field items = (case map_of items ''claudeAiOauth'' of
       Some (JObj oauth) \<Rightarrow> map_of oauth ''expiresAt''
     | _ \<Rightarrow> None)"

text \<open>The timestamp that a value of the expiry field denotes, in the words of the
  specification (milliseconds since the epoch): an integer denotes itself, a string its
  decimal numeral, and a finite float the integer it has when truncated towards zero.\<close>

definition denotes_timestamp :: "json \<Rightarrow> int \<Rightarrow> bool" where
  "denotes_timestamp v e =
     (v = JInt e \<or> v = JStr (str_int e)
      \<or> (\<exists>r. v = JFloat (Finite r)
            \<and> (0 \<le> r \<and> of_int e \<le> r \<and> r < of_int e + 1
               \<or> r < 0 \<and> of_int e - 1 < r \<and> r \<le> of_int e)))"

text \<open>How a \<^verbatim>\<open>subprocess.run\<close> call ends: the binary is not found, the timeout
  expires, another \<^verbatim>\<open>OSError\<close> is raised, or the process completes with a return code
  and its standard output.\<close>

datatype run_result = NotFound | TimedOut | OtherOSError | Completed int string

text \<open>The host as the sandbox launcher reads it.  \<open>repo_config_file\<close> gives the content
  of \<^verbatim>\<open>agents/repos/<repo>/config.yaml\<close> under the working directory, \<open>None\<close> when
  that file does not exist; \<open>creds_file\<close> the content of the credentials file.\<close>

record host =
  docker_info :: run_result
  platform_system :: string
  creds_file :: "string option"
  keychain_query :: run_result
  json_loads :: "string \<Rightarrow> string + json"
  now_ms :: int
  environ :: "string \<rightharpoonup> string"
  uuid_hex :: string
  cwd :: string
  home :: string
  env_file_exists :: bool
  repo_config_file :: "string \<Rightarrow> string option"

definition keychain_missing_message :: string where
  "keychain_missing_message = ''Claude credentials not found in macOS Keychain or on disk.'' @ [LF]
     @ ''Run 'claude' on the host first to authenticate.''"

text \<open>\<^verbatim>\<open>_export_macos_keychain_credentials\<close>: the result and the content of the
  credentials file afterwards.\<close>

definition export_macos_keychain_credentials ::
  "host \<Rightarrow> py_error + ((bool \<times> string) \<times> string option)" where
  "export_macos_keychain_credentials h = (case creds_file h of
       Some text \<Rightarrow> Inr ((True, ''''), Some text)
     | None \<Rightarrow> (case keychain_query h of
           Completed returncode stdout \<Rightarrow>
             if returncode \<noteq> 0 \<or> strip stdout = []
             then Inr ((False, keychain_missing_message), None)
             else Inr ((True, ''''), Some (strip stdout))
         | NotFound \<Rightarrow> Inr ((False, ''macOS 'security' command not found.''), None)
         | TimedOut \<Rightarrow> Inr ((False, ''Timed out reading Claude credentials from Keychain.''), None)
         | OtherOSError \<Rightarrow> Inl OSError))"

definition docker_missing_message :: string where
  "docker_missing_message = ''Docker is required to run the agent sandbox.'' @ [LF]
     @ ''Install Docker Desktop: https://www.docker.com/products/docker-desktop/''"

definition docker_unresponsive_message :: string where
  "docker_unresponsive_message = ''Docker daemon is not responding. Is Docker Desktop running?''"

definition creds_missing_message :: string where
  "creds_missing_message = ''Claude credentials not found.'' @ [LF]
     @ ''Run 'claude' on the host first to authenticate.''"

definition ssh_warning :: string where
  "ssh_warning = ''WARNING: SSH_AUTH_SOCK not set. Git operations requiring SSH keys will fail.''"

text \<open>\<^verbatim>\<open>validate_credentials\<close>.  The result of \<^verbatim>\<open>docker info\<close> is not bound to a name:
  a call that completes goes on to the credentials, whatever its return code.\<close>

definition validate_credentials :: "host \<Rightarrow> py_error + (bool \<times> string)" where
  "validate_credentials h = (case docker_info h of
       NotFound \<Rightarrow> Inr (False, docker_missing_message)
     | TimedOut \<Rightarrow> Inr (False, docker_unresponsive_message)
     | OtherOSError \<Rightarrow> Inl OSError
     | Completed returncode stdout \<Rightarrow>
         (case (if platform_system h = ''Darwin'' then export_macos_keychain_credentials h
                else Inr ((True, ''''), creds_file h)) of
            Inl e \<Rightarrow> Inl e
          | Inr ((ok, err), creds) \<Rightarrow>
              if \<not> ok then Inr (False, err)
              else (case creds of
                  None \<Rightarrow> Inr (False, creds_missing_message)
                | Some text \<Rightarrow>
                    (case check_token_expiry
                            (case json_loads h text of Inl e \<Rightarrow> ReadFailed e | Inr data \<Rightarrow> Loaded data)
                            (now_ms h) of
                       Inl e \<Rightarrow> Inl e
                     | Inr (valid, msg) \<Rightarrow>
                         if \<not> valid then Inr (False, msg)
                         else if dict_get (environ h) ''SSH_AUTH_SOCK'' '''' = ''''
                           then Inr (True, if msg \<noteq> '''' then strip (msg @ [LF] @ ssh_warning)
                                           else ssh_warning)
                         else Inr (True, msg)))))"

section \<open>sandbox.py: the repo configuration\<close>

text \<open>What \<^verbatim>\<open>build_sandbox_command\<close> reads from the dict that \<^verbatim>\<open>_read_repo_config\<close>
  returns: the items of \<^verbatim>\<open>env_vars\<close> in insertion order, the volumes and the ports.
  The empty dict of a missing file gives three empty lists.\<close>

record repo_config =
  env_vars :: "(string \<times> string) list"
  volumes :: "string list"
  ports :: "int list"

text \<open>\<^verbatim>\<open>d[key] = value\<close> on the items of a dict: a key that is present keeps its place.\<close>

fun dict_set :: "string \<Rightarrow> string \<Rightarrow> (string \<times> string) list \<Rightarrow> (string \<times> string) list" where
  "dict_set k v [] = [(k, v)]"
| "dict_set k v (p # ps) = (if fst p = k then (k, v) # ps else p # dict_set k v ps)"

text \<open>\<^verbatim>\<open>\s*$\<close> under \<^verbatim>\<open>re.MULTILINE\<close>, where \<^verbatim>\<open>$\<close> matches at the end of the text and
  before a newline: the rest of the text after the longest run of white space that
  ends at such a place, \<open>None\<close> when there is none.\<close>

fun spaces_eol :: "string \<Rightarrow> string option" where
  "spaces_eol [] = Some []"
| "spaces_eol (c # cs) =
     (if is_space c
      then (case spaces_eol cs of
              Some r \<Rightarrow> Some r
            | None \<Rightarrow> if c = LF then Some (c # cs) else None)
      else None)"

text \<open>The patterns \<^verbatim>\<open>^sandbox:\s*$\<close> and \<^verbatim>\<open>^\s+env_vars:\s*$\<close> (and the like) tried at
  one line start: the rest of the text after the match.\<close>

definition match_top_key :: "string \<Rightarrow> string \<Rightarrow> string option" where
  "match_top_key lit s = (if prefix lit s then spaces_eol (drop (length lit) s) else None)"

definition match_nested_key :: "string \<Rightarrow> string \<Rightarrow> string option" where
  "match_nested_key lit s =
     (if takeWhile is_space s = [] then None
      else match_top_key lit (dropWhile is_space s))"

text \<open>\<^verbatim>\<open>re.search\<close> with \<^verbatim>\<open>re.MULTILINE\<close> for a pattern that starts with \<^verbatim>\<open>^\<close>:
  the first line start where the pattern matches; the result is \<^verbatim>\<open>text[m.end():]\<close>.\<close>

fun first_match :: "(string \<Rightarrow> string option) \<Rightarrow> string list \<Rightarrow> string option" where
  "first_match m [] = None"
| "first_match m (s # ss) = (case m s of Some r \<Rightarrow> Some r | None \<Rightarrow> first_match m ss)"

definition search_after :: "(string \<Rightarrow> string option) \<Rightarrow> string \<Rightarrow> string option" where
  "search_after m text = first_match m (bol_suffixes text)"

text \<open>\<^verbatim>\<open>sandbox_text[:next_top.start()]\<close> for \<^verbatim>\<open>re.search(r"^\S", sandbox_text,
  re.MULTILINE)\<close>, the whole text without a match.  The flag says whether the position is
  a line start.\<close>

fun trim_at_top :: "bool \<Rightarrow> string \<Rightarrow> string" where
  "trim_at_top bol [] = []"
| "trim_at_top bol (c # cs) =
     (if bol \<and> \<not> is_space c then [] else c # trim_at_top (c = LF) cs)"

text \<open>\<^verbatim>\<open>re.match(r"^\s+(\w+):\s*(.+)$", line)\<close> on a line of \<^verbatim>\<open>splitlines\<close>, which holds
  no newline: the key and the stripped second group.  When only white space follows the
  colon, \<^verbatim>\<open>\s*\<close> gives one character back to the group, which strips to the empty
  string.\<close>

definition match_env_entry :: "string \<Rightarrow> (string \<times> string) option" where
  "match_env_entry line =
     (let r = dropWhile is_space line; key = takeWhile is_word r in
      if takeWhile is_space line = [] \<or> key = [] then None
      else (case dropWhile is_word r of
          [] \<Rightarrow> None
        | c # v \<Rightarrow> if c = CHR '':'' \<and> v \<noteq> [] then Some (key, strip v) else None))"

text \<open>\<^verbatim>\<open>re.match(r"^\s+-\s+(.+)$", line)\<close>: the stripped group.  After a dash that only
  white space follows, two characters of it are needed for a match.\<close>

definition match_list_item :: "string \<Rightarrow> string option" where
  "match_list_item line =
     (if takeWhile is_space line = [] then None
      else (case dropWhile is_space line of
          [] \<Rightarrow> None
        | c # r \<Rightarrow>
            if c \<noteq> CHR ''-'' \<or> takeWhile is_space r = [] then None
            else if dropWhile is_space r \<noteq> [] then Some (strip (dropWhile is_space r))
            else if 2 \<le> length r then Some ''''
            else None))"

text \<open>\<^verbatim>\<open>re.match(r"^\s+-\s+(\d+)", line)\<close> and \<^verbatim>\<open>int\<close> of the group.\<close>

definition match_port_item :: "string \<Rightarrow> int option" where
  "match_port_item line =
     (if takeWhile is_space line = [] then None
      else (case dropWhile is_space line of
          [] \<Rightarrow> None
        | c # r \<Rightarrow>
            if c \<noteq> CHR ''-'' \<or> takeWhile is_space r = []
               \<or> takeWhile is_digit (dropWhile is_space r) = [] then None
            else Some (int (nat_of_digits (takeWhile is_digit (dropWhile is_space r))))))"

text \<open>The three loops over the lines after a section key.  An entry line has to start
  with six spaces; the first other line that is not blank ends the loop.\<close>

fun env_lines :: "string list \<Rightarrow> (string \<times> string) list \<Rightarrow> (string \<times> string) list" where
  "env_lines [] acc = acc"
| "env_lines (line # ls) acc =
     (if strip line = [] \<or> \<not> prefix ''      '' line
      then (if strip line \<noteq> [] \<and> \<not> prefix ''      '' line then acc else env_lines ls acc)
      else (case match_env_entry line of
              Some (k, v) \<Rightarrow> env_lines ls (dict_set k v acc)
            | None \<Rightarrow> env_lines ls acc))"

fun volume_lines :: "string list \<Rightarrow> string list \<Rightarrow> string list" where
  "volume_lines [] acc = acc"
| "volume_lines (line # ls) acc =
     (if strip line = [] then volume_lines ls acc
      else if \<not> prefix ''      '' line then acc
      else (case match_list_item line of
              Some v \<Rightarrow> volume_lines ls (acc @ [v])
            | None \<Rightarrow> volume_lines ls acc))"

fun port_lines :: "string list \<Rightarrow> int list \<Rightarrow> int list" where
  "port_lines [] acc = acc"
| "port_lines (line # ls) acc =
     (if strip line = [] then port_lines ls acc
      else if \<not> prefix ''      '' line then acc
      else (case match_port_item line of
              Some p \<Rightarrow> port_lines ls (acc @ [p])
            | None \<Rightarrow> port_lines ls acc))"

text \<open>\<^verbatim>\<open>_read_repo_config\<close>; the argument is the content of the repo's config.yaml,
  \<open>None\<close> when the file does not exist.\<close>

definition read_repo_config :: "string option \<Rightarrow> repo_config" where
  "read_repo_config file = (case file of
       None \<Rightarrow> \<lparr>env_vars = [], volumes = [], ports = []\<rparr>
     | Some content \<Rightarrow> (case search_after (match_top_key ''sandbox:'') content of
           None \<Rightarrow> \<lparr>env_vars = [], volumes = [], ports = []\<rparr>
         | Some rest \<Rightarrow>
             (let sandbox_text = trim_at_top True rest in
              \<lparr>env_vars = (case search_after (match_nested_key ''env_vars:'') sandbox_text of
                   None \<Rightarrow> [] | Some env_text \<Rightarrow> env_lines (splitlines env_text) []),
               volumes = (case search_after (match_nested_key ''volumes:'') sandbox_text of
                   None \<Rightarrow> [] | Some vol_text \<Rightarrow> volume_lines (splitlines vol_text) []),
               ports = (case search_after (match_nested_key ''ports:'') sandbox_text of
                   None \<Rightarrow> [] | Some port_text \<Rightarrow> port_lines (splitlines port_text) [])\<rparr>)))"

section \<open>sandbox.py: the sandbox command\<close>

text \<open>The three kinds of loop that extend the command.\<close>

definition extend_env :: "(string \<times> string) list \<Rightarrow> string list \<Rightarrow> string list" where
  "extend_env items cmd = fold (\<lambda>(key, val) cmd. cmd @ [''-e'', key @ ''='' @ val]) items cmd"

definition extend_ports :: "int list \<Rightarrow> string list \<Rightarrow> string list" where
  "extend_ports ps cmd = fold (\<lambda>port cmd. cmd @ [''-p'', str_int port @ '':'' @ str_int port]) ps cmd"

definition extend_volumes :: "string list \<Rightarrow> string list \<Rightarrow> string list" where
  "extend_volumes vs cmd = fold (\<lambda>volume cmd. cmd @ [''-v'', volume]) vs cmd"

text \<open>The loop over the two identity variables of the host.\<close>

definition extend_identity :: "host \<Rightarrow> string list \<Rightarrow> string list" where
  "extend_identity h cmd =
     fold (\<lambda>var cmd. let val = dict_get (environ h) var '''' in
                      if val \<noteq> '''' then cmd @ [''-e'', var @ ''='' @ val] else cmd)
       [''GIT_AUTHOR_NAME'', ''GIT_AUTHOR_EMAIL''] cmd"

text \<open>
  \<^verbatim>\<open>build_sandbox_command\<close>: the command and the container name.  An argument that
  defaults to \<^verbatim>\<open>None\<close> is an option; the overrides are the items of the dict.  Paths
  are joined with a slash: the working directory is not the root and the repo and goal
  names are plain directory names.
\<close>

definition build_sandbox_command ::
  "host \<Rightarrow> string \<Rightarrow> string list option \<Rightarrow> string \<Rightarrow> string \<Rightarrow> bool \<Rightarrow> int list option
    \<Rightarrow> (string \<times> string) list option \<Rightarrow> string list \<times> string" where
  "build_sandbox_command h script args repo goal interactive extra_ports env_overrides =
     (let container_name = ''keywork-agent-'' @ take 8 (uuid_hex h);
          cmd = [''docker'', ''run'', ''--rm'', ''--name'', container_name];
          cmd = (if interactive then cmd @ [''-it''] else cmd);
          workspace_path = (if repo \<noteq> '''' then cwd h @ ''/workspace/'' @ repo
                            else cwd h @ ''/workspace'');
          cmd = cmd @ [''-v'', workspace_path @ '':/workspace''];
          cmd = (if goal \<noteq> ''''
                 then cmd @ [''-v'', cwd h @ ''/agents/goals/'' @ goal @ '':/state''] else cmd);
          cmd = cmd @ [''-v'', cwd h @ ''/agents'' @ '':/agents:ro''];
          cmd = cmd @ [''-v'', home h @ ''/.claude'' @ '':/home/agent/.claude-host:ro''];
          cmd = cmd @ [''-v'', ''keywork-cache:/home/agent/.cache/uv''];
          ssh_sock = dict_get (environ h) ''SSH_AUTH_SOCK'' '''';
          cmd = (if ssh_sock \<noteq> ''''
                 then (if platform_system h = ''Darwin''
                       then cmd @ [''-v'', ''/run/host-services/ssh-auth.sock:/ssh-agent:ro'']
                       else cmd @ [''-v'', ssh_sock @ '':/ssh-agent:ro''])
                      @ [''-e'', ''SSH_AUTH_SOCK=/ssh-agent'']
                 else cmd);
          cmd = cmd @ [''-e'', ''KEYWORK_SANDBOX=1''];
          cmd = (if repo \<noteq> '''' then cmd @ [''-e'', ''REPO_NAME='' @ repo] else cmd);
          cmd = (if goal \<noteq> '''' then cmd @ [''-e'', ''GOAL_NAME='' @ goal] else cmd);
          cmd = extend_identity h cmd;
          cmd = (if env_file_exists h then cmd @ [''--env-file'', ''agents/sandbox/.env''] else cmd);
          cmd = (case extra_ports of None \<Rightarrow> cmd | Some ps \<Rightarrow> extend_ports ps cmd);
          cmd = (case env_overrides of None \<Rightarrow> cmd | Some items \<Rightarrow> extend_env items cmd);
          cmd = (if repo \<noteq> ''''
                 then (let repo_config = read_repo_config (repo_config_file h repo);
                           cmd = extend_env (env_vars repo_config) cmd;
                           cmd = extend_volumes (volumes repo_config) cmd
                       in extend_ports (ports repo_config) cmd)
                 else cmd);
          cmd = cmd @ [''keywork-sandbox''];
          cmd = cmd @ [''bash'', script];
          cmd = (case args of None \<Rightarrow> cmd | Some as \<Rightarrow> cmd @ as)
      in (cmd, container_name))"

text \<open>Some occurrence of \<open>b\<close> lies after the first occurrence of \<open>a\<close>.\<close>

definition precedes :: "'a \<Rightarrow> 'a \<Rightarrow> 'a list \<Rightarrow> bool" where
  "precedes a b xs = (b \<in> set (drop 1 (dropWhile (\<lambda>x. x \<noteq> a) xs)))"

text \<open>The layers of environment arguments, in the words of the specification: the core
  variables, the identity passthrough, the static env-file, the caller's overrides and
  the variables of the repo configuration.\<close>

definition env_args :: "(string \<times> string) list \<Rightarrow> string list" where
  "env_args items = concat (map (\<lambda>(key, val). [''-e'', key @ ''='' @ val]) items)"

definition core_env_args :: "string \<Rightarrow> string \<Rightarrow> string list" where
  "core_env_args repo goal = [''-e'', ''KEYWORK_SANDBOX=1'']
     @ (if repo \<noteq> '''' then [''-e'', ''REPO_NAME='' @ repo] else [])
     @ (if goal \<noteq> '''' then [''-e'', ''GOAL_NAME='' @ goal] else [])"

definition identity_args :: "host \<Rightarrow> string list" where
  "identity_args h = env_args (filter (\<lambda>(key, val). val \<noteq> '''')
     (map (\<lambda>var. (var, dict_get (environ h) var '''')) [''GIT_AUTHOR_NAME'', ''GIT_AUTHOR_EMAIL'']))"

definition env_file_args :: "host \<Rightarrow> string list" where
  "env_file_args h = (if env_file_exists h then [''--env-file'', ''agents/sandbox/.env''] else [])"

definition override_args :: "(string \<times> string) list option \<Rightarrow> string list" where
  "override_args env_overrides = (case env_overrides of None \<Rightarrow> [] | Some items \<Rightarrow> env_args items)"

definition repo_env_args :: "host \<Rightarrow> string \<Rightarrow> string list" where
  "repo_env_args h repo =
     (if repo \<noteq> '''' then env_args (env_vars (read_repo_config (repo_config_file h repo))) else [])"

text \<open>The other segments of the command: the run arguments, the mounts, the forwarding
  of the SSH agent, and the port and volume arguments.\<close>

definition run_args :: "host \<Rightarrow> bool \<Rightarrow> string list" where
  "run_args h interactive = [''docker'', ''run'', ''--rm'', ''--name'',
       ''keywork-agent-'' @ take 8 (uuid_hex h)]
     @ (if interactive then [''-it''] else [])"

definition mount_args :: "host \<Rightarrow> string \<Rightarrow> string \<Rightarrow> string list" where
  "mount_args h repo goal =
     [''-v'', (if repo \<noteq> '''' then cwd h @ ''/workspace/'' @ repo else cwd h @ ''/workspace'')
        @ '':/workspace'']
     @ (if goal \<noteq> '''' then [''-v'', cwd h @ ''/agents/goals/'' @ goal @ '':/state''] else [])
     @ [''-v'', cwd h @ ''/agents:/agents:ro'',
        ''-v'', home h @ ''/.claude:/home/agent/.claude-host:ro'',
        ''-v'', ''keywork-cache:/home/agent/.cache/uv'']"

definition ssh_args :: "host \<Rightarrow> string list" where
  "ssh_args h =
     (if dict_get (environ h) ''SSH_AUTH_SOCK'' '''' \<noteq> ''''
      then (if platform_system h = ''Darwin''
            then [''-v'', ''/run/host-services/ssh-auth.sock:/ssh-agent:ro'']
            else [''-v'', dict_get (environ h) ''SSH_AUTH_SOCK'' '''' @ '':/ssh-agent:ro''])
           @ [''-e'', ''SSH_AUTH_SOCK=/ssh-agent'']
      else [])"

definition port_args :: "int list \<Rightarrow> string list" where
  "port_args ps = concat (map (\<lambda>port. [''-p'', str_int port @ '':'' @ str_int port]) ps)"

definition volume_args :: "string list \<Rightarrow> string list" where
  "volume_args vs = concat (map (\<lambda>volume. [''-v'', volume]) vs)"

definition repo_mount_args :: "host \<Rightarrow> string \<Rightarrow> string list" where
  "repo_mount_args h repo =
     (if repo \<noteq> ''''
      then volume_args (volumes (read_repo_config (repo_config_file h repo)))
           @ port_args (ports (read_repo_config (repo_config_file h repo)))
      else [])"

text \<open>Example inputs.  A repo configuration in the format that the docstring of
  \<^verbatim>\<open>_read_repo_config\<close> gives, with entries four spaces deep; the same with the entry
  six spaces deep; a Linux host without SSH agent and identity variables, with the
  configuration of the repo \<^verbatim>\<open>x\<close> and the presence of the static env-file as
  parameters.\<close>

definition documented_config :: string where
  "documented_config = ''sandbox:'' @ [LF] @ ''  env_vars:'' @ [LF] @ ''    A: 2'' @ [LF]"

definition six_space_config :: string where
  "six_space_config = ''sandbox:'' @ [LF] @ ''  env_vars:'' @ [LF] @ ''      A: 2'' @ [LF]"

definition example_host :: "bool \<Rightarrow> string option \<Rightarrow> host" where
  "example_host env_file config =
     \<lparr>docker_info = Completed 0 '''', platform_system = ''Linux'', creds_file = None,
      keychain_query = NotFound, json_loads = (\<lambda>text. Inl ''Expecting value''), now_ms = 0,
      environ = Map.empty, uuid_hex = ''0123456789abcdef'', cwd = ''/srv/keywork'',
      home = ''/home/dev'', env_file_exists = env_file,
      repo_config_file = (\<lambda>repo. if repo = ''x'' then config else None)\<rparr>"

section \<open>terminal.py: opening a terminal session\<close>

text \<open>\<^verbatim>\<open>TerminalResult\<close>; \<open>method_name\<close> is its field \<^verbatim>\<open>method\<close>.\<close>

record TerminalResult =
  success :: bool
  method_name :: string
  pid :: "int option"
  fallback_command :: "string option"

text \<open>How a \<^verbatim>\<open>subprocess.Popen\<close> call ends: the process starts, with its process id,
  or \<^verbatim>\<open>FileNotFoundError\<close> or another \<^verbatim>\<open>OSError\<close> is raised.\<close>

datatype popen_result = Started int | PopenNotFound | PopenOSError

text \<open>The desktop as the terminal launcher reads it: \<^verbatim>\<open>sys.platform\<close>, the outcome of
  \<^verbatim>\<open>subprocess.run\<close> and of \<^verbatim>\<open>subprocess.Popen\<close> for an argument list,
  \<^verbatim>\<open>shutil.which\<close>, the environment and the working directory.\<close>

record desktop =
  sys_platform :: string
  run :: "string list \<Rightarrow> run_result"
  popen :: "string list \<Rightarrow> popen_result"
  which :: "string \<Rightarrow> string option"
  term_environ :: "string \<rightharpoonup> string"
  term_cwd :: string

definition result :: "bool \<Rightarrow> string \<Rightarrow> TerminalResult" where
  "result ok m = \<lparr>success = ok, method_name = m, pid = None, fallback_command = None\<rparr>"

definition is_macos :: "desktop \<Rightarrow> bool" where
  "is_macos d = (sys_platform d = ''darwin'')"

text \<open>\<^verbatim>\<open>sub in s\<close> for strings.\<close>

fun contains :: "string \<Rightarrow> string \<Rightarrow> bool" where
  "contains sub [] = (sub = [])"
| "contains sub (c # cs) = (prefix sub (c # cs) \<or> contains sub cs)"

text \<open>\<^verbatim>\<open>_is_iterm2_available\<close>; an \<^verbatim>\<open>OSError\<close> other than the missing binary is not
  caught.\<close>

definition is_iterm2_available :: "desktop \<Rightarrow> py_error + bool" where
  "is_iterm2_available d =
     (if \<not> is_macos d then Inr False
      else (case run d [''osascript'', ''-e'',
                ''tell application \"System Events\" to get name of processes''] of
          Completed returncode stdout \<Rightarrow> Inr (returncode = 0 \<and> contains ''iTerm'' stdout)
        | NotFound \<Rightarrow> Inr False
        | TimedOut \<Rightarrow> Inr False
        | OtherOSError \<Rightarrow> Inl OSError))"

text \<open>\<^verbatim>\<open>s.replace("\\", "\\\\").replace('"', '\\"')\<close>.\<close>

definition applescript_escape :: "string \<Rightarrow> string" where
  "applescript_escape s = concat (map (\<lambda>c.
       if c = CHR 0x5C then [CHR 0x5C, CHR 0x5C]
       else if c = CHR 0x22 then [CHR 0x5C, CHR 0x22]
       else [c]) s)"

text \<open>A launch through \<^verbatim>\<open>osascript\<close>, as \<^verbatim>\<open>_launch_iterm2\<close> and
  \<^verbatim>\<open>_launch_macos_terminal\<close> make it.\<close>

definition run_applescript :: "desktop \<Rightarrow> string \<Rightarrow> string \<Rightarrow> py_error + TerminalResult" where
  "run_applescript d script m = (case run d [''osascript'', ''-e'', script] of
       Completed returncode stdout \<Rightarrow> Inr (result (returncode = 0) m)
     | NotFound \<Rightarrow> Inr (result False m)
     | TimedOut \<Rightarrow> Inr (result False m)
     | OtherOSError \<Rightarrow> Inl OSError)"

definition launch_iterm2 :: "desktop \<Rightarrow> string \<Rightarrow> string \<Rightarrow> string \<Rightarrow> py_error + TerminalResult" where
  "launch_iterm2 d command window_title working_dir =
     run_applescript d
       (''tell application \"iTerm2\"'' @ [LF]
        @ ''    create window with default profile'' @ [LF]
        @ ''    tell current session of current window'' @ [LF]
        @ ''        set name to \"'' @ applescript_escape window_title @ ''\"'' @ [LF]
        @ ''        write text \"cd '' @ applescript_escape working_dir @ '' && ''
        @ applescript_escape command @ ''\"'' @ [LF]
        @ ''    end tell'' @ [LF]
        @ ''end tell'')
       ''iterm2''"

definition launch_macos_terminal ::
  "desktop \<Rightarrow> string \<Rightarrow> string \<Rightarrow> string \<Rightarrow> py_error + TerminalResult" where
  "launch_macos_terminal d command window_title working_dir =
     run_applescript d
       (''tell application \"Terminal\"'' @ [LF]
        @ ''    do script \"cd '' @ applescript_escape working_dir @ '' && ''
        @ applescript_escape command @ ''\"'' @ [LF]
        @ ''    set custom title of front window to \"'' @ applescript_escape window_title @ ''\"'' @ [LF]
        @ ''end tell'')
       ''macos_terminal''"

text \<open>A launch through \<^verbatim>\<open>subprocess.Popen\<close>: both exceptions are caught.\<close>

definition popen_terminal :: "desktop \<Rightarrow> string list \<Rightarrow> string \<Rightarrow> TerminalResult" where
  "popen_terminal d argv m = (case popen d argv of
       Started p \<Rightarrow> \<lparr>success = True, method_name = m, pid = Some p, fallback_command = None\<rparr>
     | _ \<Rightarrow> result False m)"

definition launch_gnome_terminal :: "desktop \<Rightarrow> string \<Rightarrow> string \<Rightarrow> string \<Rightarrow> TerminalResult" where
  "launch_gnome_terminal d command window_title working_dir =
     popen_terminal d
       [''gnome-terminal'', ''--title='' @ window_title, ''--working-directory='' @ working_dir,
        ''--'', ''bash'', ''-c'', command @ ''; echo 'Press Enter to close'; read'']
       ''gnome_terminal''"

definition launch_x_terminal_emulator ::
  "desktop \<Rightarrow> string \<Rightarrow> string \<Rightarrow> string \<Rightarrow> TerminalResult" where
  "launch_x_terminal_emulator d command window_title working_dir =
     popen_terminal d
       [''x-terminal-emulator'', ''-T'', window_title, ''-e'',
        ''bash -c '' @ [CHR 0x27] @ ''cd '' @ working_dir @ '' && '' @ command
          @ ''; echo 'Press Enter to close'; read'' @ [CHR 0x27]]
       ''x_terminal_emulator''"

definition launch_tmux :: "desktop \<Rightarrow> string \<Rightarrow> string \<Rightarrow> string \<Rightarrow> py_error + TerminalResult" where
  "launch_tmux d command window_title working_dir =
     (case run d [''tmux'', ''new-window'', ''-n'', window_title, ''cd '' @ working_dir @ '' && '' @ command] of
        Completed returncode stdout \<Rightarrow> Inr (result (returncode = 0) ''tmux'')
      | NotFound \<Rightarrow> Inr (result False ''tmux'')
      | TimedOut \<Rightarrow> Inr (result False ''tmux'')
      | OtherOSError \<Rightarrow> Inl OSError)"

text \<open>\<^verbatim>\<open>_fallback\<close>.\<close>

definition fallback :: "string \<Rightarrow> string \<Rightarrow> TerminalResult" where
  "fallback command working_dir =
     \<lparr>success = False, method_name = ''fallback'', pid = None,
      fallback_command = Some (''cd '' @ working_dir @ '' && '' @ command)\<rparr>"

text \<open>One step of the cascade: when the method applies, its attempt is made, and a
  success is returned; otherwise the cascade goes on.  An attempt that raises ends the
  call.\<close>

definition attempt ::
  "bool \<Rightarrow> (py_error + TerminalResult) \<Rightarrow> (py_error + TerminalResult) \<Rightarrow> py_error + TerminalResult" where
  "attempt applies launch rest =
     (if applies
      then (case launch of
              Inl e \<Rightarrow> Inl e
            | Inr r \<Rightarrow> if success r then Inr r else rest)
      else rest)"

text \<open>\<^verbatim>\<open>open_terminal_session\<close>; a working directory of \<open>None\<close> is the current one.\<close>

definition open_terminal_session ::
  "desktop \<Rightarrow> string \<Rightarrow> string \<Rightarrow> string option \<Rightarrow> py_error + TerminalResult" where
  "open_terminal_session d command window_title working_dir_opt =
     (let working_dir = (case working_dir_opt of None \<Rightarrow> term_cwd d | Some w \<Rightarrow> w) in
      case (if is_macos d then is_iterm2_available d else Inr False) of
        Inl e \<Rightarrow> Inl e
      | Inr iterm2 \<Rightarrow>
          attempt iterm2 (launch_iterm2 d command window_title working_dir)
         (attempt (is_macos d) (launch_macos_terminal d command window_title working_dir)
         (attempt (which d ''gnome-terminal'' \<noteq> None)
            (Inr (launch_gnome_terminal d command window_title working_dir))
         (attempt (which d ''x-terminal-emulator'' \<noteq> None)
            (Inr (launch_x_terminal_emulator d command window_title working_dir))
         (attempt (dict_get (term_environ d) ''TMUX'' '''' \<noteq> '''')
            (launch_tmux d command window_title working_dir)
         (Inr (fallback command working_dir)))))))"

section \<open>Properties of the text primitives\<close>

lemma str_nat_nonempty: "str_nat n \<noteq> []"
  by (subst str_nat.simps) simp

lemma digit_chars: "n < 10 \<Longrightarrow> ''0123456789'' ! n \<in> set ''0123456789''"
  by (rule nth_mem) simp

lemma str_nat_digits: "set (str_nat n) \<subseteq> set ''0123456789''"
proof (induction n rule: str_nat.induct)
  case (1 n)
  show ?case
  proof (cases "n < 10")
    case True
    then show ?thesis using digit_chars [of n] by (subst str_nat.simps) simp
  next
    case False
    have "n mod 10 < 10" by simp
    from digit_chars [OF this] 1 False show ?thesis
      by (subst str_nat.simps) simp
  qed
qed

lemma str_nat_zero: "(str_nat n = ''0'') = (n = 0)"
proof (cases "n < 10")
  case True
  then have "n \<in> {0,1,2,3,4,5,6,7,8,9}" by auto
  then show ?thesis by (subst str_nat.simps) auto
next
  case False
  then have "str_nat n = str_nat (n div 10) @ [''0123456789'' ! (n mod 10)]"
    by (subst str_nat.simps) simp
  moreover have "str_nat (n div 10) \<noteq> []" by (rule str_nat_nonempty)
  ultimately show ?thesis using False by (cases "str_nat (n div 10)") auto
qed

lemma str_int_zero: "(str_int i = ''0'') = (i = 0)"
  by (auto simp: str_int_def str_nat_zero)

lemma str_int_no_slash: "CHR ''/'' \<notin> set (str_int i)"
  using str_nat_digits by (auto simp: str_int_def)

lemma slash_split:
  assumes "x @ ''/'' @ y = ''0/0''" "CHR ''/'' \<notin> set x"
  shows "y = ''0''"
  using assms by (auto simp: append_eq_Cons_conv Cons_eq_append_conv)

lemma filter_partition3:
  assumes "\<And>x. P1 x \<Longrightarrow> P x" "\<And>x. P2 x \<Longrightarrow> P x" "\<And>x. P3 x \<Longrightarrow> P x"
    and "\<And>x. \<not> (P1 x \<and> P2 x)" "\<And>x. \<not> (P1 x \<and> P3 x)" "\<And>x. \<not> (P2 x \<and> P3 x)"
  shows "length (filter P xs) = length (filter P1 xs) + length (filter P2 xs) + length (filter P3 xs)
     + length (filter (\<lambda>x. P x \<and> \<not> P1 x \<and> \<not> P2 x \<and> \<not> P3 x) xs)"
proof (induction xs)
  case Nil
  then show ?case by simp
next
  case (Cons x xs)
  then show ?case using assms [of x] by auto
qed

section \<open>Goal progress and task counts\<close>

text \<open>
  C10.  The progress string of a goal is \<^verbatim>\<open>no tasks\<close> exactly when its total task
  count is 0; otherwise it is the completed count, a slash and the total count.  It is
  never \<^verbatim>\<open>0/0\<close>, so the goal without tasks does not show that string.
\<close>

theorem progress_spec:
  "(progress g = ''no tasks'') = (total_tasks g = 0)
   \<and> (total_tasks g \<noteq> 0 \<longrightarrow>
        progress g = str_int (completed_tasks g) @ ''/'' @ str_int (total_tasks g))
   \<and> progress g \<noteq> ''0/0''"
proof (cases "total_tasks g = 0")
  case True
  then show ?thesis by (simp add: progress_def)
next
  case False
  have a: "str_int (completed_tasks g) @ ''/'' @ str_int (total_tasks g) \<noteq> ''no tasks''"
  proof
    assume "str_int (completed_tasks g) @ ''/'' @ str_int (total_tasks g) = ''no tasks''"
    moreover have "CHR ''/'' \<in> set (str_int (completed_tasks g) @ ''/'' @ str_int (total_tasks g))"
      by simp
    ultimately have "CHR ''/'' \<in> set ''no tasks''" by (rule subst)
    then show False by simp
  qed
  have b: "str_int (completed_tasks g) @ ''/'' @ str_int (total_tasks g) \<noteq> ''0/0''"
  proof
    assume "str_int (completed_tasks g) @ ''/'' @ str_int (total_tasks g) = ''0/0''"
    from slash_split [OF this str_int_no_slash] have "str_int (total_tasks g) = ''0''" .
    with False show False by (simp add: str_int_zero)
  qed
  from False a b show ?thesis by (simp add: progress_def)
qed

text \<open>The goal of the repository's test: one task done of three gives \<^verbatim>\<open>1/3\<close>.\<close>

theorem progress_spec_witness:
  "total_tasks \<lparr>name = ''g'', status = ''building'', priority = ''high'', last_activity = '''',
      completed_tasks = 1, total_tasks = 3, blocked_tasks = 1, review_tasks = 0,
      total_cost_usd = FloatOf ''1.50'', has_replan = False, has_feedback = False,
      prd_summary = '''', repo_name = ''my-project'', path = ''g''\<rparr> \<noteq> 0
   \<and> progress \<lparr>name = ''g'', status = ''building'', priority = ''high'', last_activity = '''',
      completed_tasks = 1, total_tasks = 3, blocked_tasks = 1, review_tasks = 0,
      total_cost_usd = FloatOf ''1.50'', has_replan = False, has_feedback = False,
      prd_summary = '''', repo_name = ''my-project'', path = ''g''\<rparr> = ''1/3''"
  using progress_spec [of "\<lparr>name = ''g'', status = ''building'', priority = ''high'', last_activity = '''',
      completed_tasks = 1, total_tasks = 3, blocked_tasks = 1, review_tasks = 0,
      total_cost_usd = FloatOf ''1.50'', has_replan = False, has_feedback = False,
      prd_summary = '''', repo_name = ''my-project'', path = ''g''\<rparr>"]
  by (simp add: str_int_def str_nat.simps)

text \<open>
  C6.  The counts of \<^verbatim>\<open>count_tasks\<close> partition the task lines: the total is the sum of
  the done, blocked, review and pending counts, so done + blocked + review is at most
  the total, and no line start carries two of the three statuses.  The counts are a
  function of the text alone, so counting the same text again gives the same counts.
\<close>

theorem count_tasks_partition:
  "(case count_tasks impl of (n_total, n_done, n_blocked, n_review) \<Rightarrow>
      n_total = n_done + n_blocked + n_review + pending_tasks impl
      \<and> n_done + n_blocked + n_review \<le> n_total)
   \<and> (\<forall>s. \<not> (prefix ''- [x]'' s \<and> prefix ''- [BLOCKED'' s)
          \<and> \<not> (prefix ''- [x]'' s \<and> prefix ''- [REVIEW'' s)
          \<and> \<not> (prefix ''- [BLOCKED'' s \<and> prefix ''- [REVIEW'' s))"
proof -
  have excl: "\<not> (prefix ''- [x]'' s \<and> prefix ''- [BLOCKED'' s)"
    "\<not> (prefix ''- [x]'' s \<and> prefix ''- [REVIEW'' s)"
    "\<not> (prefix ''- [BLOCKED'' s \<and> prefix ''- [REVIEW'' s)" for s :: string
    by (auto simp: prefix_def)
  have sub: "prefix ''- [x]'' s \<Longrightarrow> prefix ''- ['' s"
    "prefix ''- [BLOCKED'' s \<Longrightarrow> prefix ''- ['' s"
    "prefix ''- [REVIEW'' s \<Longrightarrow> prefix ''- ['' s" for s :: string
    by (auto simp: prefix_def)
  show ?thesis
  proof (cases impl)
    case None
    then show ?thesis using excl by (simp add: count_tasks_def pending_tasks_def)
  next
    case (Some content)
    have "count_bol ''- ['' content = count_bol ''- [x]'' content + count_bol ''- [BLOCKED'' content
        + count_bol ''- [REVIEW'' content + pending_tasks (Some content)"
      unfolding count_bol_def pending_tasks_def option.case
      by (rule filter_partition3) (use excl sub in blast)+
    with Some excl show ?thesis by (simp add: count_tasks_def)
  qed
qed

text \<open>The checklist of the repository's test: five task lines, one done, one blocked,
  one in review and two pending.\<close>

theorem count_tasks_partition_witness:
  "count_tasks (Some (''# Implementation Plan'' @ [LF, LF] @ ''- [ ] T001: First task'' @ [LF]
      @ ''- [x] T002: Completed task'' @ [LF] @ ''- [BLOCKED: needs info] T003: Blocked task'' @ [LF]
      @ ''- [REVIEW: check output] T004: Review task'' @ [LF] @ ''- [ ] T005: Another pending'' @ [LF]))
    = (5, 1, 1, 1)
   \<and> pending_tasks (Some (''# Implementation Plan'' @ [LF, LF] @ ''- [ ] T001: First task'' @ [LF]
      @ ''- [x] T002: Completed task'' @ [LF] @ ''- [BLOCKED: needs info] T003: Blocked task'' @ [LF]
      @ ''- [REVIEW: check output] T004: Review task'' @ [LF] @ ''- [ ] T005: Another pending'' @ [LF])) = 2"
  using count_tasks_partition [of "Some (''# Implementation Plan'' @ [LF, LF] @ ''- [ ] T001: First task'' @ [LF]
      @ ''- [x] T002: Completed task'' @ [LF] @ ''- [BLOCKED: needs info] T003: Blocked task'' @ [LF]
      @ ''- [REVIEW: check output] T004: Review task'' @ [LF] @ ''- [ ] T005: Another pending'' @ [LF])"]
  by (simp add: count_tasks_def count_bol_def pending_tasks_def bol_suffixes_def LF_def)

section \<open>Dependencies of review tasks\<close>

lemmas text_eval = LF_def CR_def code_def is_digit_def is_space_def is_word_def is_linebreak_def
  strip_def cons_line_def bol_suffixes_def is_number_space_def strip_number_def

lemma is_digit_word: "is_digit c \<Longrightarrow> is_word c"
  by (simp add: is_word_def)

lemma not_word_LF: "\<not> is_word LF"
  by (simp add: is_word_def is_digit_def code_def LF_def)

lemma is_digit_not_LF: "is_digit c \<Longrightarrow> c \<noteq> LF"
  using is_digit_word not_word_LF by blast

lemma findall_task_ids_shape:
  "tid \<in> set (findall_task_ids s) \<Longrightarrow>
     \<exists>ds. tid = CHR ''T'' # ds \<and> ds \<noteq> [] \<and> (\<forall>c\<in>set ds. is_digit c)"
proof (induction s rule: findall_task_ids.induct)
  case 1
  then show ?case by simp
next
  case (2 c cs)
  then show ?case
    by (auto split: if_splits dest: set_takeWhileD)
qed

lemma prefix_takeWhile_line:
  "LF \<notin> set lit \<Longrightarrow> prefix lit (takeWhile (\<lambda>c. c \<noteq> LF) s) = prefix lit s"
proof (induction lit arbitrary: s)
  case Nil
  then show ?case by simp
next
  case (Cons a lit)
  then show ?case by (cases s) auto
qed

lemma match_done_line:
  assumes "ds \<noteq> []" "\<forall>c\<in>set ds. is_digit c"
  shows "match_done (CHR ''T'' # ds) s = done_line (CHR ''T'' # ds) (takeWhile (\<lambda>c. c \<noteq> LF) s)"
proof -
  let ?lit = "''- [x] '' @ CHR ''T'' # ds"
  have noLF: "LF \<notin> set ?lit"
    using assms(2) is_digit_not_LF by (auto simp: LF_def)
  have lastw: "is_word (last ?lit)"
    using assms by (auto intro: is_digit_word)
  show ?thesis
  proof (cases "prefix ?lit s")
    case False
    then show ?thesis
      using prefix_takeWhile_line [OF noLF, of s] by (simp add: match_done_def done_line_def)
  next
    case True
    then obtain r where s: "s = ?lit @ r" by (auto simp: prefix_def)
    have tw: "takeWhile (\<lambda>c. c \<noteq> LF) s = ?lit @ takeWhile (\<lambda>c. c \<noteq> LF) r"
      unfolding s using noLF by (intro takeWhile_append2) auto
    have d1: "drop (length ?lit) s = r" unfolding s by simp
    have d2: "drop (length ?lit) (takeWhile (\<lambda>c. c \<noteq> LF) s) = takeWhile (\<lambda>c. c \<noteq> LF) r"
      unfolding tw by simp
    have p2: "prefix ?lit (takeWhile (\<lambda>c. c \<noteq> LF) s)"
      using True prefix_takeWhile_line [OF noLF, of s] by simp
    show ?thesis
      unfolding match_done_def done_line_def Let_def d1 d2
      using True p2 lastw not_word_LF
      by (cases r) (auto simp: boundary_def)
  qed
qed

lemma search_done_lines:
  assumes "tid \<in> set (findall_task_ids d)"
  shows "search_done tid content = (\<exists>l\<in>set (lines_nl content). done_line tid l)"
proof -
  from findall_task_ids_shape [OF assms] obtain ds
    where "tid = CHR ''T'' # ds" "ds \<noteq> []" "\<forall>c\<in>set ds. is_digit c" by blast
  then show ?thesis
    by (simp add: search_done_def lines_nl_def list_ex_iff match_done_line del: bol_suffixes_def)
qed

lemma all_deps_done_iff:
  "all_deps_done ids content = (\<forall>tid\<in>set ids. search_done tid content)"
  by (induction ids) auto

lemma are_depends_satisfied_iff:
  "are_depends_satisfied d content =
     (\<forall>tid\<in>set (findall_task_ids d). \<exists>l\<in>set (lines_nl content). done_line tid l)"
  by (auto simp: are_depends_satisfied_def Let_def all_deps_done_iff search_done_lines)

text \<open>
  C5.  \<^verbatim>\<open>_are_depends_satisfied\<close> is true when the Depends line holds no task
  identifier, and in general it is true exactly when every identifier found in the
  Depends line has a done line in the document: a line that starts with
  \<^verbatim>\<open>- [x] \<close> and the identifier, with a word boundary after the identifier.
\<close>

theorem are_depends_satisfied_spec:
  "(findall_task_ids d = [] \<longrightarrow> are_depends_satisfied d content)
   \<and> are_depends_satisfied d content =
       (\<forall>tid\<in>set (findall_task_ids d). \<exists>l\<in>set (lines_nl content). done_line tid l)"
  using are_depends_satisfied_iff [of d content] by (simp add: are_depends_satisfied_def)

text \<open>Two done tasks satisfy a line that names both; a pending task does not; the done
  task T10 is no done line for T1; a line without identifiers is satisfied.\<close>

theorem are_depends_satisfied_spec_witness:
  "are_depends_satisfied ''T001, T002'' (''- [x] T001: a'' @ [LF] @ ''- [x] T002: b'' @ [LF])
   \<and> \<not> are_depends_satisfied ''T001, T002'' (''- [x] T001: a'' @ [LF] @ ''- [ ] T002: b'' @ [LF])
   \<and> \<not> are_depends_satisfied ''T1'' (''- [x] T10: a'' @ [LF])
   \<and> are_depends_satisfied ''none'' ''''"
  using are_depends_satisfied_spec [of "''T001, T002''" "''- [x] T001: a'' @ [LF] @ ''- [x] T002: b'' @ [LF]"]
    are_depends_satisfied_spec [of "''T001, T002''" "''- [x] T001: a'' @ [LF] @ ''- [ ] T002: b'' @ [LF]"]
    are_depends_satisfied_spec [of "''T1''" "''- [x] T10: a'' @ [LF]"]
    are_depends_satisfied_spec [of "''none''" "''''"]
  by (simp add: lines_nl_def bol_suffixes_def done_line_def LF_def is_digit_def is_word_def code_def)

lemma splitlines_all_no_linebreak:
  "\<forall>l\<in>set (splitlines s). \<forall>c\<in>set l. \<not> is_linebreak c"
proof (induction s rule: splitlines.induct)
  case 1
  then show ?case by simp
next
  case (2 c')
  then show ?case by simp
next
  case (3 c' d ds)
  show ?case
  proof (cases "c' = CR \<and> d = LF")
    case True
    with 3 show ?thesis by simp
  next
    case nocrlf: False
    show ?thesis
    proof (cases "is_linebreak c'")
      case True
      with 3 nocrlf show ?thesis by auto
    next
      case False
      from 3(3)[OF nocrlf False] have ih: "\<forall>l\<in>set (splitlines (d # ds)). \<forall>c\<in>set l. \<not> is_linebreak c" .
      have "\<forall>l\<in>set (cons_line c' (splitlines (d # ds))). \<forall>c\<in>set l. \<not> is_linebreak c"
        using ih False by (cases "splitlines (d # ds)") (auto simp: cons_line_def)
      with nocrlf False show ?thesis by auto
    qed
  qed
qed

lemma splitlines_no_linebreak:
  "l \<in> set (splitlines s) \<Longrightarrow> c \<in> set l \<Longrightarrow> \<not> is_linebreak c"
  using splitlines_all_no_linebreak by blast

lemma is_linebreak_LF: "is_linebreak LF"
  by (simp add: is_linebreak_def LF_def code_def)

lemma splitlines_no_LF: "l \<in> set (splitlines s) \<Longrightarrow> LF \<notin> set l"
  using splitlines_no_linebreak is_linebreak_LF by blast

lemma not_space_dash: "\<not> is_space (CHR ''-'')"
  by (simp add: is_space_def code_def)

lemma not_space_D: "\<not> is_space (CHR ''D'')"
  by (simp add: is_space_def code_def)

lemma takeWhile_no_LF: "LF \<notin> set s \<Longrightarrow> takeWhile (\<lambda>c. c \<noteq> LF) s = s"
  by (simp add: takeWhile_eq_all_conv) blast

lemma match_depends_iff:
  assumes "LF \<notin> set l"
  shows "(match_depends l = Some d) = depends_line l d"
proof
  assume m: "match_depends l = Some d"
  let ?ws1 = "takeWhile is_space l"
  from m have w1: "?ws1 \<noteq> []" by (auto simp: match_depends_def split: if_splits)
  from m obtain r where dr: "dropWhile is_space l = CHR ''-'' # r"
    by (auto simp: match_depends_def split: if_splits list.splits)
  let ?ws2 = "takeWhile is_space r"
  from m w1 dr have w2: "?ws2 \<noteq> []"
    by (auto simp: match_depends_def split: if_splits)
  from m w1 dr w2 have p: "prefix ''Depends:'' (dropWhile is_space r)"
    by (auto simp: match_depends_def split: if_splits)
  then obtain rest where rest: "dropWhile is_space r = ''Depends:'' @ rest"
    by (auto simp: prefix_def)
  from m w1 dr w2 p rest
  have d: "d = takeWhile (\<lambda>c. c \<noteq> LF) (dropWhile is_space rest)"
    by (simp add: match_depends_def)
  have l: "l = ?ws1 @ ''-'' @ ?ws2 @ ''Depends:'' @ rest"
  proof -
    have "l = ?ws1 @ dropWhile is_space l" by simp
    also have "dropWhile is_space l = ''-'' @ (?ws2 @ dropWhile is_space r)"
      using dr by simp
    finally show ?thesis using rest by simp
  qed
  have "set rest \<subseteq> set l"
    by (subst l) auto
  then have "set (dropWhile is_space rest) \<subseteq> set l"
    by (auto dest: set_dropWhileD)
  with assms have "LF \<notin> set (dropWhile is_space rest)" by blast
  with d have d': "d = dropWhile is_space rest" by (simp add: takeWhile_no_LF)
  have "\<forall>c\<in>set ?ws1. is_space c" "\<forall>c\<in>set ?ws2. is_space c"
    by (auto dest: set_takeWhileD)
  with w1 w2 l d' show "depends_line l d"
    unfolding depends_line_def by blast
next
  assume "depends_line l d"
  then obtain ws1 ws2 rest where w1: "ws1 \<noteq> []" "\<forall>c\<in>set ws1. is_space c"
    and w2: "ws2 \<noteq> []" "\<forall>c\<in>set ws2. is_space c"
    and l: "l = ws1 @ ''-'' @ ws2 @ ''Depends:'' @ rest"
    and d: "d = dropWhile is_space rest"
    unfolding depends_line_def by blast
  have t1: "takeWhile is_space l = ws1"
    unfolding l using w1(2) not_space_dash by (simp add: takeWhile_append2)
  have d1: "dropWhile is_space l = CHR ''-'' # ws2 @ ''Depends:'' @ rest"
    unfolding l using w1(2) not_space_dash by (simp add: dropWhile_append2)
  have t2: "takeWhile is_space (ws2 @ ''Depends:'' @ rest) = ws2"
    using w2(2) not_space_D by (simp add: takeWhile_append2)
  have d2: "dropWhile is_space (ws2 @ ''Depends:'' @ rest) = ''Depends:'' @ rest"
    using w2(2) not_space_D by (simp add: dropWhile_append2)
  have "set (dropWhile is_space rest) \<subseteq> set l"
    unfolding l by (auto dest: set_dropWhileD)
  with assms have "LF \<notin> set (dropWhile is_space rest)" by blast
  then have "takeWhile (\<lambda>c. c \<noteq> LF) (dropWhile is_space rest) = d"
    using d by (simp add: takeWhile_no_LF)
  then show "match_depends l = Some d"
    using w1(1) w2(1) t1 d1 t2 d2 by (simp add: match_depends_def)
qed

lemma match_depends_None:
  "LF \<notin> set l \<Longrightarrow> (match_depends l = None) = (\<not> is_depends_line l)"
  using match_depends_iff [of l] by (cases "match_depends l") (auto simp: is_depends_line_def)

lemma look_ahead_window:
  assumes "stop \<le> length lines" "\<forall>l\<in>set lines. LF \<notin> set l"
  shows "look_ahead lines content j stop =
     (case spec_first_depends (takeWhile (\<lambda>l. \<not> prefix ''- ['' l) (take (stop - j) (drop j lines))) of
        None \<Rightarrow> True
      | Some l \<Rightarrow> (\<forall>d. depends_line l d \<longrightarrow> are_depends_satisfied d content))"
  using assms
proof (induction lines content j stop rule: look_ahead.induct)
  case (1 lines content j stop)
  show ?case
  proof (cases "j < stop")
    case False
    then show ?thesis
      by (subst look_ahead.simps) (simp add: spec_first_depends_def)
  next
    case True
    with 1(2) have jl: "j < length lines" by simp
    with 1(3) have noLF: "LF \<notin> set (lines ! j)" by simp
    have dr: "drop j lines = lines ! j # drop (j + 1) lines"
      using jl by (simp add: Cons_nth_drop_Suc)
    have tk: "take (stop - j) (drop j lines) = lines ! j # take (stop - (j + 1)) (drop (j + 1) lines)"
    proof -
      from True have "stop - j = Suc (stop - (j + 1))" by simp
      then show ?thesis unfolding dr by simp
    qed
    show ?thesis
    proof (cases "prefix ''- ['' (lines ! j)")
      case p: True
      then show ?thesis using True
        by (subst look_ahead.simps) (simp add: tk spec_first_depends_def)
    next
      case p: False
      show ?thesis
      proof (cases "match_depends (lines ! j)")
        case None
        then have "\<not> is_depends_line (lines ! j)"
          using match_depends_None [OF noLF] by simp
        with 1(1) [OF True refl p None 1(2) 1(3)] True p None show ?thesis
          by (subst look_ahead.simps) (simp add: tk spec_first_depends_def)
      next
        case (Some g)
        then have dl: "depends_line (lines ! j) d = (d = g)" for d
          using match_depends_iff [OF noLF, of d] by auto
        then have "is_depends_line (lines ! j)" by (auto simp: is_depends_line_def)
        with True p Some dl show ?thesis
          by (subst look_ahead.simps) (simp add: tk spec_first_depends_def)
      qed
    qed
  qed
qed

lemma window_take:
  "take (min (i + 10) (length lines) - (i + 1)) (drop (i + 1) lines) = take 9 (drop (i + 1) lines)"
proof (cases "i + 10 \<le> length lines")
  case True
  then show ?thesis by (simp add: min_def)
next
  case False
  then have "length (drop (i + 1) lines) \<le> 9" by simp
  moreover have "length (drop (i + 1) lines) \<le> min (i + 10) (length lines) - (i + 1)"
    using False by (simp add: min_def)
  ultimately show ?thesis by (simp only: take_all)
qed

lemma look_ahead_actionable:
  assumes "\<forall>l\<in>set lines. LF \<notin> set l"
  shows "look_ahead lines content (i + 1) (min (i + 10) (length lines)) = spec_actionable lines content i"
  using look_ahead_window [of "min (i + 10) (length lines)" lines content "i + 1"] assms
  by (simp only: window_take spec_actionable_def spec_window_def min.cobounded2)

lemma lazy_until_bracket_iff:
  "LF \<notin> set cs \<Longrightarrow> (lazy_until_bracket acc cs = None) = (CHR '']'' \<notin> set cs)"
  by (induction cs arbitrary: acc) auto

lemma group_then_bracket_iff:
  "LF \<notin> set s \<Longrightarrow> (group_then_bracket s = None) = (CHR '']'' \<notin> set (drop 1 s))"
  by (cases s) (auto simp: group_then_bracket_def lazy_until_bracket_iff)

lemma spaces_then_group_iff:
  "LF \<notin> set s \<Longrightarrow> (spaces_then_group s = None) = (CHR '']'' \<notin> set (drop 1 s))"
proof (induction s)
  case Nil
  then show ?case by (simp add: group_then_bracket_def)
next
  case (Cons c cs)
  then have ih: "(spaces_then_group cs = None) = (CHR '']'' \<notin> set (drop 1 cs))" by simp
  from Cons.prems have g: "(group_then_bracket (c # cs) = None) = (CHR '']'' \<notin> set cs)"
    using group_then_bracket_iff [of "c # cs"] by simp
  have sub: "CHR '']'' \<in> set (drop 1 cs) \<Longrightarrow> CHR '']'' \<in> set cs"
    by (rule in_set_dropD)
  show ?case
  proof (cases "is_space c")
    case True
    then show ?thesis
      using ih g sub by (cases "spaces_then_group cs") auto
  next
    case False
    then show ?thesis using g by simp
  qed
qed

lemma match_review_iff:
  assumes "LF \<notin> set l"
  shows "(match_review l \<noteq> None) = review_line l"
proof -
  have "LF \<notin> set (drop 10 l)" using assms by (auto dest: in_set_dropD)
  from spaces_then_group_iff [OF this] show ?thesis
    by (auto simp: match_review_def review_line_def)
qed

lemma review_loop_concat:
  "review_loop goal lines content i items =
     items @ concat (map (review_step goal lines content) [i..<length lines])"
proof (induction goal lines content i items rule: review_loop.induct)
  case (1 goal lines content i items)
  show ?case
  proof (cases "i < length lines")
    case True
    with 1 show ?thesis
      by (subst review_loop.simps) (simp add: upt_conv_Cons)
  next
    case False
    then show ?thesis by (subst review_loop.simps) simp
  qed
qed

lemma not_actionable_pending:
  assumes "spec_first_depends (spec_window lines i) = Some l"
    and "depends_line l d"
    and "tid \<in> set (findall_task_ids d)"
    and "\<not> (\<exists>l'\<in>set (lines_nl content). done_line tid l')"
  shows "\<not> spec_actionable lines content i"
  using assms by (auto simp: spec_actionable_def are_depends_satisfied_iff)

text \<open>
  C4.  The claim is that every review task is returned exactly when its first Depends
  sub-line, among the at most 9 lines that follow it and before the next line that
  starts with \<^verbatim>\<open>- [\<close>, is absent or satisfied.  The code takes for a review task
  only a review line, which has a note before the closing bracket: the line
  \<^verbatim>\<open>- [REVIEW:] T1: x\<close>, which \<^verbatim>\<open>count_tasks\<close> counts as a review task and which has
  no Depends sub-line, is not returned.
\<close>

theorem review_without_note_not_returned:
  "count_tasks (Some ''- [REVIEW:] T1: x'') = (1, 0, 0, 1)
   \<and> load_review_tasks ''g'' (Some ''- [REVIEW:] T1: x'') = []"
  by (simp add: count_tasks_def count_bol_def text_eval load_review_tasks_def review_loop.simps
      review_step_def match_review_def group_then_bracket_def)

text \<open>
  C4, as amended.  \<^verbatim>\<open>load_review_tasks\<close> returns, in the order of the lines, one
  item for every review line that is actionable: the first Depends sub-line among the
  at most 9 lines that follow it, before the next line that starts with \<^verbatim>\<open>- [\<close>,
  is absent or has every identifier of its dependency text satisfied.  The lines that
  the code takes for review tasks are exactly the review lines.  A review line without
  a Depends sub-line in that window is therefore included, and one whose Depends
  sub-line names an identifier without a done line in the document is excluded.
\<close>

theorem load_review_tasks_spec:
  "load_review_tasks goal None = []
   \<and> load_review_tasks goal (Some content) =
       concat (map (\<lambda>i. case match_review (splitlines content ! i) of
                     None \<Rightarrow> []
                   | Some g \<Rightarrow> if spec_actionable (splitlines content) content i
                       then [review_item goal (splitlines content) i g] else [])
                [0..<length (splitlines content)])
   \<and> (\<forall>l\<in>set (splitlines content). (match_review l \<noteq> None) = review_line l)
   \<and> (spec_first_depends (spec_window (splitlines content) i) = None \<longrightarrow>
        spec_actionable (splitlines content) content i)
   \<and> (\<forall>l d tid. spec_first_depends (spec_window (splitlines content) i) = Some l
         \<and> depends_line l d \<and> tid \<in> set (findall_task_ids d)
         \<and> \<not> (\<exists>l'\<in>set (lines_nl content). done_line tid l')
        \<longrightarrow> \<not> spec_actionable (splitlines content) content i)"
proof -
  have noLF: "\<forall>l\<in>set (splitlines content). LF \<notin> set l"
    using splitlines_no_LF by blast
  have "review_step goal (splitlines content) content = (\<lambda>i. case match_review (splitlines content ! i) of
          None \<Rightarrow> []
        | Some g \<Rightarrow> if spec_actionable (splitlines content) content i
            then [review_item goal (splitlines content) i g] else [])"
    by (rule ext) (simp only: review_step_def look_ahead_actionable [OF noLF])
  then have "load_review_tasks goal (Some content) =
       concat (map (\<lambda>i. case match_review (splitlines content ! i) of
                     None \<Rightarrow> []
                   | Some g \<Rightarrow> if spec_actionable (splitlines content) content i
                       then [review_item goal (splitlines content) i g] else [])
                [0..<length (splitlines content)])"
    by (simp add: load_review_tasks_def review_loop_concat)
  moreover have "load_review_tasks goal None = []"
    by (simp add: load_review_tasks_def)
  moreover have "\<forall>l\<in>set (splitlines content). (match_review l \<noteq> None) = review_line l"
    using noLF match_review_iff by blast
  moreover have "spec_first_depends (spec_window (splitlines content) i) = None \<longrightarrow>
        spec_actionable (splitlines content) content i"
    by (simp add: spec_actionable_def)
  moreover have "\<forall>l d tid. spec_first_depends (spec_window (splitlines content) i) = Some l
         \<and> depends_line l d \<and> tid \<in> set (findall_task_ids d)
         \<and> \<not> (\<exists>l'\<in>set (lines_nl content). done_line tid l')
        \<longrightarrow> \<not> spec_actionable (splitlines content) content i"
    using not_actionable_pending by blast
  ultimately show ?thesis by (intro conjI)
qed

lemma is_depends_line_eval:
  "LF \<notin> set l \<Longrightarrow> is_depends_line l = (match_depends l \<noteq> None)"
  using match_depends_None [of l] by simp

lemma depends_line_eval:
  "LF \<notin> set l \<Longrightarrow> depends_line l d = (match_depends l = Some d)"
  by (simp add: match_depends_iff)

text \<open>T2 depends on the done T1, named in the second line after it, and is returned;
  T3 depends on T9, which has no done line, and is left out, although the note under T2
  names T9 too; T4 has no Depends sub-line and is returned.\<close>

theorem load_review_tasks_spec_witness:
  "load_review_tasks ''g'' (Some (''- [x] T1: a'' @ [LF] @ ''- [REVIEW: b] T2: c'' @ [LF]
       @ ''  note: see T9'' @ [LF] @ ''  - Depends: T1'' @ [LF] @ ''- [REVIEW: d] T3: e'' @ [LF]
       @ ''  - Depends: T9'' @ [LF] @ ''- [REVIEW: f] T4: g'' @ [LF]))
     = [\<lparr>goal_name = ''g'', item_type = ''review'', title = ''b'',
         task_id = Some ''T2'', question_id = None\<rparr>,
        \<lparr>goal_name = ''g'', item_type = ''review'', title = ''f'',
         task_id = Some ''T4'', question_id = None\<rparr>]
   \<and> spec_first_depends (spec_window (splitlines (''- [x] T1: a'' @ [LF] @ ''- [REVIEW: b] T2: c'' @ [LF]
       @ ''  note: see T9'' @ [LF] @ ''  - Depends: T1'' @ [LF] @ ''- [REVIEW: d] T3: e'' @ [LF]
       @ ''  - Depends: T9'' @ [LF] @ ''- [REVIEW: f] T4: g'' @ [LF])) 1) = Some ''  - Depends: T1''
   \<and> spec_first_depends (spec_window (splitlines (''- [x] T1: a'' @ [LF] @ ''- [REVIEW: b] T2: c'' @ [LF]
       @ ''  note: see T9'' @ [LF] @ ''  - Depends: T1'' @ [LF] @ ''- [REVIEW: d] T3: e'' @ [LF]
       @ ''  - Depends: T9'' @ [LF] @ ''- [REVIEW: f] T4: g'' @ [LF])) 6) = None"
  using load_review_tasks_spec [of "''g''" "''- [x] T1: a'' @ [LF] @ ''- [REVIEW: b] T2: c'' @ [LF]
       @ ''  note: see T9'' @ [LF] @ ''  - Depends: T1'' @ [LF] @ ''- [REVIEW: d] T3: e'' @ [LF]
       @ ''  - Depends: T9'' @ [LF] @ ''- [REVIEW: f] T4: g'' @ [LF]" 6]
  by (simp add: text_eval load_review_tasks_def review_loop.simps look_ahead.simps review_step_def
      review_item_def match_review_def group_then_bracket_def match_depends_def parse_task_id_def
      are_depends_satisfied_def search_done_def match_done_def boundary_def
      spec_actionable_def spec_first_depends_def spec_window_def is_depends_line_eval
      depends_line_eval review_line_def)

section \<open>Loading a goal\<close>

text \<open>With every file missing, \<^verbatim>\<open>load_goal\<close> returns the defaults; in general it
  returns exactly when \<^verbatim>\<open>float\<close> accepts the cost entry of state.md, or its default.\<close>

lemma load_goal_missing_files:
  "load_goal \<lparr>dir_name = n, dir_path = p, state_md = None, implementation_md = None,
      prd_md = None, replan_exists = r, feedback_exists = f\<rparr> =
   Inr \<lparr>name = n, status = ''created'', priority = ''normal'', last_activity = '''',
      completed_tasks = 0, total_tasks = 0, blocked_tasks = 0, review_tasks = 0,
      total_cost_usd = FloatOf ''0'', has_replan = r, has_feedback = f, prd_summary = '''',
      repo_name = '''', path = p\<rparr>"
  by (simp add: load_goal_def parse_state_md_def count_tasks_def dict_get_def py_float_def
      is_float_number_def take_digitpart_def take_exponent_def drop_sign_def lower_def
      get_prd_summary_def text_eval)

lemma load_goal_returns_iff:
  "(\<exists>g. load_goal d = Inr g) =
     (\<exists>v. py_float (dict_get (parse_state_md (state_md d)) ''total_cost_usd'' ''0'') = Inr v)"
  by (auto simp: load_goal_def Let_def split: prod.splits sum.splits)

text \<open>
  C3.  The claim is that the state-derivation functions never raise and that a
  \<^verbatim>\<open>total_cost_usd\<close> entry that is not a number degrades to the default.  The code
  passes the entry to \<^verbatim>\<open>float\<close> unguarded: for a state.md with the line
  \<^verbatim>\<open>total_cost_usd: abc\<close>, \<^verbatim>\<open>load_goal\<close> raises ValueError.
\<close>

theorem load_goal_malformed_cost:
  "load_goal \<lparr>dir_name = ''g'', dir_path = ''agents/goals/g'',
      state_md = Some (''total_cost_usd: abc'' @ [LF]), implementation_md = None, prd_md = None,
      replan_exists = False, feedback_exists = False\<rparr> = Inl ValueError"
  by (simp add: load_goal_def parse_state_md_def count_tasks_def dict_get_def py_float_def
      is_float_number_def take_digitpart_def take_exponent_def drop_sign_def lower_def text_eval)

section \<open>Credentials\<close>

lemma digit_char_props:
  "c \<in> set ''0123456789'' \<Longrightarrow> is_digit c \<and> \<not> is_number_space c \<and> c \<noteq> CHR ''-'' \<and> c \<noteq> CHR ''+''"
  by (auto simp: is_digit_def is_number_space_def code_def)

lemma str_nat_all_digits: "c \<in> set (str_nat n) \<Longrightarrow> is_digit c"
  using str_nat_digits digit_char_props by blast

lemma digit_code: "d < 10 \<Longrightarrow> code (''0123456789'' ! d) = 48 + d"
proof -
  assume "d < 10"
  then have "d \<in> {0,1,2,3,4,5,6,7,8,9}" by auto
  then show ?thesis by (auto simp: code_def)
qed

lemma digitpart_rest_digits: "\<forall>c\<in>set ds. is_digit c \<Longrightarrow> digitpart_rest ds = []"
  by (induction ds rule: digitpart_rest.induct) auto

lemma take_digitpart_digits:
  "ds \<noteq> [] \<Longrightarrow> \<forall>c\<in>set ds. is_digit c \<Longrightarrow> take_digitpart ds = Some []"
  by (cases ds) (auto simp: take_digitpart_def digitpart_rest_digits)

lemma foldl_digits_str_nat:
  "foldl (\<lambda>n c. 10 * n + (code c - 48)) 0 (str_nat n) = n"
proof (induction n rule: str_nat.induct)
  case (1 n)
  show ?case
  proof (cases "n < 10")
    case True
    then show ?thesis by (subst str_nat.simps) (simp add: digit_code)
  next
    case False
    have "n mod 10 < 10" by simp
    from digit_code [OF this] 1 False show ?thesis
      by (subst str_nat.simps) simp
  qed
qed

lemma nat_of_digits_str_nat: "nat_of_digits (str_nat n) = n"
proof -
  have "filter is_digit (str_nat n) = str_nat n"
    by (simp add: str_nat_all_digits)
  then show ?thesis by (simp add: nat_of_digits_def foldl_digits_str_nat)
qed

lemma strip_number_id:
  assumes "s \<noteq> []" "\<not> is_number_space (hd s)" "\<not> is_number_space (last s)"
  shows "strip_number s = s"
proof -
  from assms have a: "dropWhile is_number_space s = s" by (cases s) auto
  from assms have "rev s \<noteq> []" "\<not> is_number_space (hd (rev s))" by (auto simp: hd_rev)
  then have "dropWhile is_number_space (rev s) = rev s" by (cases "rev s") auto
  with a show ?thesis by (simp add: strip_number_def)
qed

lemma str_nat_ends:
  "is_digit (hd (str_nat n))" "is_digit (last (str_nat n))"
  using str_nat_nonempty [of n] str_nat_all_digits [of _ n] by auto

lemma digit_not_space: "is_digit c \<Longrightarrow> \<not> is_number_space c"
  by (auto simp: is_digit_def is_number_space_def)

lemma digit_not_sign: "is_digit c \<Longrightarrow> c \<noteq> CHR ''-'' \<and> c \<noteq> CHR ''+''"
  by (auto simp: is_digit_def code_def)

lemma py_int_of_str_str_int: "py_int_of_str (str_int e) = Inr e"
proof (cases "e < 0")
  case True
  let ?ds = "str_nat (nat (- e))"
  have s: "str_int e = CHR ''-'' # ?ds" using True by (simp add: str_int_def)
  have ne: "?ds \<noteq> []" by (rule str_nat_nonempty)
  have "\<not> is_number_space (CHR ''-'')" by (simp add: is_number_space_def code_def)
  moreover have "\<not> is_number_space (last (CHR ''-'' # ?ds))"
    using ne str_nat_ends(2) [of "nat (- e)"] digit_not_space by simp
  ultimately have st: "strip_number (CHR ''-'' # ?ds) = CHR ''-'' # ?ds"
    by (intro strip_number_id) simp_all
  have td: "take_digitpart ?ds = Some []"
    using ne str_nat_all_digits by (intro take_digitpart_digits) auto
  show ?thesis
    using True by (simp add: py_int_of_str_def s st drop_sign_def td nat_of_digits_str_nat)
next
  case False
  let ?ds = "str_nat (nat e)"
  have s: "str_int e = ?ds" using False by (simp add: str_int_def)
  have ne: "?ds \<noteq> []" by (rule str_nat_nonempty)
  then obtain c cs where cs: "?ds = c # cs" by (cases ?ds) auto
  with str_nat_ends(1) [of "nat e"] have dc: "is_digit c" by simp
  have st: "strip_number ?ds = ?ds"
    using ne str_nat_ends [of "nat e"] digit_not_space by (intro strip_number_id) auto
  have ds: "drop_sign ?ds = ?ds"
    using cs dc digit_not_sign [of c] by (simp add: drop_sign_def)
  have td: "take_digitpart ?ds = Some []"
    using ne str_nat_all_digits by (intro take_digitpart_digits) auto
  have np: "\<not> prefix ''-'' ?ds"
    using cs dc digit_not_sign [of c] by auto
  show ?thesis
    using False by (simp add: py_int_of_str_def s st ds td np nat_of_digits_str_nat)
qed

lemma py_int_denotes: "denotes_timestamp v e \<Longrightarrow> py_int v = Inr e"
  unfolding denotes_timestamp_def
proof (elim disjE exE conjE)
  assume "v = JInt e"
  then show ?thesis by (simp add: py_int_def)
next
  assume "v = JStr (str_int e)"
  then show ?thesis by (simp add: py_int_def py_int_of_str_str_int)
next
  fix r :: rat
  assume "v = JFloat (Finite r)" "0 \<le> r" "of_int e \<le> r" "r < of_int e + 1"
  then show ?thesis by (simp add: py_int_def floor_unique)
next
  fix r :: rat
  assume "v = JFloat (Finite r)" "r < 0" "of_int e - 1 < r" "r \<le> of_int e"
  then show ?thesis by (simp add: py_int_def ceiling_unique)
qed

lemma denotes_not_null: "denotes_timestamp v e \<Longrightarrow> v \<noteq> JNull"
  by (auto simp: denotes_timestamp_def)

text \<open>
  C7.  The claim is made for every credentials file that decodes.  The file \<^verbatim>\<open>[]\<close>
  decodes, to a list, and has no nested expiry field, so that the claim gives valid
  without a message for it.  The check tests the value under \<^verbatim>\<open>claudeAiOauth\<close> for
  being a dict before it calls \<^verbatim>\<open>get\<close> on it, but not the decoded value itself:
  \<^verbatim>\<open>data.get\<close> raises AttributeError, which neither the check nor
  \<^verbatim>\<open>validate_credentials\<close> catches.
\<close>

theorem check_token_expiry_list_raises:
  "check_token_expiry (Loaded (JArr [])) 5000000 = Inl AttributeError
   \<and> validate_credentials ((example_host False None)
         \<lparr>creds_file := Some ''[]'',
          json_loads := (\<lambda>text. if text = ''[]'' then Inr (JArr []) else Inl ''Expecting value'')\<rparr>)
       = Inl AttributeError"
  by (simp add: check_token_expiry_def validate_credentials_def example_host_def)

text \<open>
  For a credentials file that decodes to an object the three cases are as claimed: when
  the nested expiry field is absent the check returns valid without a message; when the
  timestamp that the field denotes is not later than the current time it returns not
  valid with the message \<^verbatim>\<open>Claude OAuth token has expired.\<close>, followed on a new line by
  \<^verbatim>\<open>Run 'claude' in your terminal to re-authenticate, then retry.\<close>; when it is later,
  by at most 30 minutes, it returns valid with the warning that carries the remaining
  whole minutes.
\<close>

theorem check_token_expiry_spec:
  "(expiry_field items = None \<longrightarrow>
      check_token_expiry (Loaded (JObj items)) now = Inr (True, ''''))
   \<and> (expiry_field items = Some v \<and> denotes_timestamp v e \<and> e \<le> now \<longrightarrow>
      check_token_expiry (Loaded (JObj items)) now
        = Inr (False, ''Claude OAuth token has expired.'' @ [LF]
            @ ''Run 'claude' in your terminal to re-authenticate, then retry.''))
   \<and> (expiry_field items = Some v \<and> denotes_timestamp v e \<and> now < e \<and> e - now \<le> 30 * 60 * 1000 \<longrightarrow>
      check_token_expiry (Loaded (JObj items)) now
        = Inr (True, ''WARNING: Claude OAuth token expires in ~''
            @ str_int ((e - now) div 60000) @ '' minutes.''))"
proof (intro conjI impI)
  assume "expiry_field items = None"
  then show "check_token_expiry (Loaded (JObj items)) now = Inr (True, '''')"
    by (auto simp: check_token_expiry_def expiry_field_def Let_def split: option.splits json.splits)
next
  assume a: "expiry_field items = Some v \<and> denotes_timestamp v e \<and> e \<le> now"
  then have "py_int v = Inr e" "v \<noteq> JNull" by (auto dest: py_int_denotes denotes_not_null)
  with a show "check_token_expiry (Loaded (JObj items)) now
        = Inr (False, ''Claude OAuth token has expired.'' @ [LF]
            @ ''Run 'claude' in your terminal to re-authenticate, then retry.'')"
    by (auto simp: check_token_expiry_def expiry_field_def expired_message_def Let_def
        split: option.splits json.splits)
next
  assume a: "expiry_field items = Some v \<and> denotes_timestamp v e \<and> now < e \<and> e - now \<le> 30 * 60 * 1000"
  then have "py_int v = Inr e" "v \<noteq> JNull" by (auto dest: py_int_denotes denotes_not_null)
  with a show "check_token_expiry (Loaded (JObj items)) now
        = Inr (True, ''WARNING: Claude OAuth token expires in ~''
            @ str_int ((e - now) div 60000) @ '' minutes.'')"
    by (auto simp: check_token_expiry_def expiry_field_def expiry_warning_def Let_def
        split: option.splits json.splits)
qed

text \<open>At time 5000000: credentials without the field; a token expired at 4000000; a
  token whose expiry is the string \<^verbatim>\<open>5600000\<close>, 10 minutes later; and one whose
  expiry is the float 5600000.5.\<close>

theorem check_token_expiry_spec_witness:
  "check_token_expiry (Loaded (JObj [(''claudeAiOauth'', JObj [(''accessToken'', JStr ''t'')])])) 5000000
     = Inr (True, '''')
   \<and> check_token_expiry (Loaded (JObj [(''claudeAiOauth'', JObj [(''expiresAt'', JInt 4000000)])])) 5000000
     = Inr (False, ''Claude OAuth token has expired.'' @ [LF]
            @ ''Run 'claude' in your terminal to re-authenticate, then retry.'')
   \<and> check_token_expiry (Loaded (JObj [(''claudeAiOauth'', JObj [(''expiresAt'', JStr ''5600000'')])])) 5000000
     = Inr (True, ''WARNING: Claude OAuth token expires in ~10 minutes.'')
   \<and> check_token_expiry (Loaded (JObj [(''claudeAiOauth'',
        JObj [(''expiresAt'', JFloat (Finite (11200001 / 2)))])])) 5000000
     = Inr (True, ''WARNING: Claude OAuth token expires in ~10 minutes.'')"
proof -
  have d1: "denotes_timestamp (JInt 4000000) 4000000"
    by (simp add: denotes_timestamp_def)
  have d2: "denotes_timestamp (JStr ''5600000'') 5600000"
    by (simp add: denotes_timestamp_def str_int_def str_nat.simps)
  have d3: "denotes_timestamp (JFloat (Finite (11200001 / 2))) 5600000"
    unfolding denotes_timestamp_def
    by (intro disjI2 exI [of _ "11200001 / 2"]) simp
  show ?thesis
    using check_token_expiry_spec [of "[(''claudeAiOauth'', JObj [(''accessToken'', JStr ''t'')])]"
        5000000 JNull 0]
      check_token_expiry_spec [of "[(''claudeAiOauth'', JObj [(''expiresAt'', JInt 4000000)])]"
        5000000 "JInt 4000000" 4000000]
      check_token_expiry_spec [of "[(''claudeAiOauth'', JObj [(''expiresAt'', JStr ''5600000'')])]"
        5000000 "JStr ''5600000''" 5600000]
      check_token_expiry_spec [of
        "[(''claudeAiOauth'', JObj [(''expiresAt'', JFloat (Finite (11200001 / 2)))])]"
        5000000 "JFloat (Finite (11200001 / 2))" 5600000]
      d1 d2 d3
    by (simp add: expiry_field_def str_int_def str_nat.simps)
qed

text \<open>A decoded value that is not an object has no \<^verbatim>\<open>get\<close>: the check raises.\<close>

lemma check_token_expiry_not_object:
  "check_token_expiry (Loaded (JArr xs)) now = Inl AttributeError"
  by (simp add: check_token_expiry_def)

text \<open>The two exceptions of the \<^verbatim>\<open>docker info\<close> call are fatal, with distinct
  messages; the return code of a call that completes has no influence on the result.\<close>

lemma validate_credentials_docker_exceptions:
  "(docker_info h = NotFound \<longrightarrow> validate_credentials h = Inr (False, docker_missing_message))
   \<and> (docker_info h = TimedOut \<longrightarrow> validate_credentials h = Inr (False, docker_unresponsive_message))
   \<and> docker_missing_message \<noteq> docker_unresponsive_message"
  by (simp add: validate_credentials_def docker_missing_message_def docker_unresponsive_message_def)

lemma validate_credentials_return_code:
  "validate_credentials (h\<lparr>docker_info := Completed rc out\<rparr>)
     = validate_credentials (h\<lparr>docker_info := Completed 0 out'\<rparr>)"
  by (simp add: validate_credentials_def export_macos_keychain_credentials_def
      cong: option.case_cong sum.case_cong prod.case_cong if_cong)

text \<open>
  C8.  The claim is that a failure of the runtime info query is fatal.  The code
  catches the missing binary and the timeout only: on a Linux host where
  \<^verbatim>\<open>docker info\<close> exits with status 1 (no daemon), with credentials that carry no
  expiry and an SSH agent socket, \<^verbatim>\<open>validate_credentials\<close> returns valid.
\<close>

theorem validate_credentials_ignores_exit_status:
  "validate_credentials \<lparr>docker_info = Completed 1 '''', platform_system = ''Linux'',
      creds_file = Some ''{}'', keychain_query = NotFound,
      json_loads = (\<lambda>text. if text = ''{}'' then Inr (JObj []) else Inl ''Expecting value''),
      now_ms = 0, environ = [''SSH_AUTH_SOCK'' \<mapsto> ''/tmp/agent.sock''], uuid_hex = ''0123456789abcdef'',
      cwd = ''/srv/keywork'', home = ''/home/dev'', env_file_exists = False,
      repo_config_file = (\<lambda>repo. None)\<rparr> = Inr (True, '''')"
  by (simp add: validate_credentials_def check_token_expiry_def dict_get_def)

section \<open>The sandbox command\<close>

lemma extend_env_append: "extend_env items cmd = cmd @ env_args items"
  by (induction items arbitrary: cmd) (auto simp: extend_env_def env_args_def)

lemma extend_ports_append: "extend_ports ps cmd = cmd @ port_args ps"
  by (induction ps arbitrary: cmd) (auto simp: extend_ports_def port_args_def)

lemma extend_volumes_append: "extend_volumes vs cmd = cmd @ volume_args vs"
  by (induction vs arbitrary: cmd) (auto simp: extend_volumes_def volume_args_def)

lemma extend_identity_append: "extend_identity h cmd = cmd @ identity_args h"
  by (simp add: extend_identity_def identity_args_def env_args_def Let_def)

lemmas extend_append = extend_env_append extend_ports_append extend_volumes_append
  extend_identity_append

lemma if_extend: "(if c then cmd @ xs else cmd) = cmd @ (if c then xs else [])"
  by simp

lemma if_extend2:
  "(if c then (if d then cmd @ xs else cmd @ ys) @ zs else cmd)
     = cmd @ (if c then (if d then xs else ys) @ zs else [])"
  by simp

lemma case_extend_ports:
  "(case extra_ports of None \<Rightarrow> cmd | Some ps \<Rightarrow> extend_ports ps cmd)
     = cmd @ (case extra_ports of None \<Rightarrow> [] | Some ps \<Rightarrow> port_args ps)"
  by (simp add: extend_ports_append split: option.split)

lemma case_extend_env:
  "(case env_overrides of None \<Rightarrow> cmd | Some items \<Rightarrow> extend_env items cmd)
     = cmd @ override_args env_overrides"
  by (simp add: extend_env_append override_args_def split: option.split)

lemma case_extend_args:
  "(case args of None \<Rightarrow> cmd | Some as \<Rightarrow> cmd @ as)
     = cmd @ (case args of None \<Rightarrow> [] | Some as \<Rightarrow> as)"
  by (simp split: option.split)

lemmas case_extend = case_extend_ports case_extend_env case_extend_args

text \<open>The command that the function builds step by step is the concatenation of its
  segments.\<close>

lemma sandbox_command_segments:
  "fst (build_sandbox_command h script args repo goal interactive extra_ports env_overrides) =
     run_args h interactive @ mount_args h repo goal @ ssh_args h
     @ core_env_args repo goal @ identity_args h @ env_file_args h
     @ (case extra_ports of None \<Rightarrow> [] | Some ps \<Rightarrow> port_args ps)
     @ override_args env_overrides @ repo_env_args h repo @ repo_mount_args h repo
     @ [''keywork-sandbox'', ''bash'', script]
     @ (case args of None \<Rightarrow> [] | Some as \<Rightarrow> as)"
proof (cases "repo = ''''")
  case True
  show ?thesis
    unfolding build_sandbox_command_def True
    apply (simp add: if_extend if_extend2 case_extend extend_append split del: if_split)
    apply (simp add: Let_def run_args_def mount_args_def
      ssh_args_def core_env_args_def env_file_args_def override_args_def repo_env_args_def
      repo_mount_args_def split del: if_split)
    done
next
  case False
  then show ?thesis
    unfolding build_sandbox_command_def
    apply (simp add: if_extend if_extend2 case_extend extend_append split del: if_split)
    apply (simp add: Let_def run_args_def mount_args_def
      ssh_args_def core_env_args_def env_file_args_def override_args_def repo_env_args_def
      repo_mount_args_def split del: if_split)
    done
qed

lemmas segment_defs = run_args_def mount_args_def ssh_args_def core_env_args_def identity_args_def
  env_file_args_def override_args_def repo_env_args_def repo_mount_args_def env_args_def
  port_args_def volume_args_def

lemmas config_eval = read_repo_config_def search_after_def match_top_key_def match_nested_key_def
  match_env_entry_def match_list_item_def match_port_item_def nat_of_digits_def

text \<open>Every argument of the caller's overrides comes before every environment argument
  of the repo configuration.\<close>

lemma overrides_before_repo_env:
  "\<exists>pre post.
     fst (build_sandbox_command h script args repo goal interactive extra_ports env_overrides)
       = pre @ override_args env_overrides @ repo_env_args h repo @ post"
proof -
  have "fst (build_sandbox_command h script args repo goal interactive extra_ports env_overrides) =
     (run_args h interactive @ mount_args h repo goal @ ssh_args h
       @ core_env_args repo goal @ identity_args h @ env_file_args h
       @ (case extra_ports of None \<Rightarrow> [] | Some ps \<Rightarrow> port_args ps))
     @ override_args env_overrides @ repo_env_args h repo
     @ (repo_mount_args h repo @ [''keywork-sandbox'', ''bash'', script]
       @ (case args of None \<Rightarrow> [] | Some as \<Rightarrow> as))"
    by (simp add: sandbox_command_segments)
  then show ?thesis by blast
qed

text \<open>The parser reads an entry that is six spaces deep, and none from the format of
  its docstring, where the entries are four spaces deep.\<close>

lemma read_repo_config_documented_format:
  "read_repo_config (Some documented_config) = \<lparr>env_vars = [], volumes = [], ports = []\<rparr>"
  by (simp add: documented_config_def config_eval text_eval)

lemma read_repo_config_six_spaces:
  "read_repo_config (Some six_space_config)
     = \<lparr>env_vars = [(''A'', ''2'')], volumes = [], ports = []\<rparr>"
  by (simp add: six_space_config_def config_eval text_eval)

lemma build_sandbox_command_six_space_config:
  "fst (build_sandbox_command (example_host False (Some six_space_config))
        ''run.sh'' None ''x'' ''y'' False None (Some [(''A'', ''1'')]))
   = [''docker'', ''run'', ''--rm'', ''--name'', ''keywork-agent-01234567'',
      ''-v'', ''/srv/keywork/workspace/x:/workspace'',
      ''-v'', ''/srv/keywork/agents/goals/y:/state'',
      ''-v'', ''/srv/keywork/agents:/agents:ro'',
      ''-v'', ''/home/dev/.claude:/home/agent/.claude-host:ro'',
      ''-v'', ''keywork-cache:/home/agent/.cache/uv'',
      ''-e'', ''KEYWORK_SANDBOX=1'', ''-e'', ''REPO_NAME=x'', ''-e'', ''GOAL_NAME=y'',
      ''-e'', ''A=1'', ''-e'', ''A=2'', ''keywork-sandbox'', ''bash'', ''run.sh'']"
  by (simp add: sandbox_command_segments segment_defs example_host_def dict_get_def
      read_repo_config_six_spaces)

text \<open>
  C1.  The claim is that with the repo \<^verbatim>\<open>x\<close>, the goal \<^verbatim>\<open>y\<close>, the override
  \<^verbatim>\<open>A=1\<close> and a repo config file that declares \<^verbatim>\<open>A: 2\<close> under \<^verbatim>\<open>env_vars\<close>, the
  command holds \<^verbatim>\<open>-e A=1\<close> and later \<^verbatim>\<open>-e A=2\<close>.  The overrides do come before the
  variables of the repo configuration, but for a config file in the documented format
  no variable is read, and the command holds no \<^verbatim>\<open>-e A=2\<close> at all.
\<close>

theorem build_sandbox_command_documented_config:
  "fst (build_sandbox_command (example_host False (Some documented_config))
        ''run.sh'' None ''x'' ''y'' False None (Some [(''A'', ''1'')]))
   = [''docker'', ''run'', ''--rm'', ''--name'', ''keywork-agent-01234567'',
      ''-v'', ''/srv/keywork/workspace/x:/workspace'',
      ''-v'', ''/srv/keywork/agents/goals/y:/state'',
      ''-v'', ''/srv/keywork/agents:/agents:ro'',
      ''-v'', ''/home/dev/.claude:/home/agent/.claude-host:ro'',
      ''-v'', ''keywork-cache:/home/agent/.cache/uv'',
      ''-e'', ''KEYWORK_SANDBOX=1'', ''-e'', ''REPO_NAME=x'', ''-e'', ''GOAL_NAME=y'',
      ''-e'', ''A=1'', ''keywork-sandbox'', ''bash'', ''run.sh'']"
  by (simp add: sandbox_command_segments segment_defs example_host_def dict_get_def
      read_repo_config_documented_format)

text \<open>
  C2.  The claim puts the static env-file first among the environment arguments.  On
  a host where the env-file exists, the command of a call without repo and goal is
  the one below: the argument of the core variable comes before the env-file argument,
  and not after it.
\<close>

lemma env_file_example:
  "fst (build_sandbox_command (example_host True None) ''run.sh'' None '''' '''' False None None)
   = [''docker'', ''run'', ''--rm'', ''--name'', ''keywork-agent-01234567'',
      ''-v'', ''/srv/keywork/workspace:/workspace'',
      ''-v'', ''/srv/keywork/agents:/agents:ro'',
      ''-v'', ''/home/dev/.claude:/home/agent/.claude-host:ro'',
      ''-v'', ''keywork-cache:/home/agent/.cache/uv'',
      ''-e'', ''KEYWORK_SANDBOX=1'', ''--env-file'', ''agents/sandbox/.env'',
      ''keywork-sandbox'', ''bash'', ''run.sh'']"
  by (simp add: sandbox_command_segments segment_defs example_host_def dict_get_def)

theorem env_file_after_core_env:
  "precedes ''KEYWORK_SANDBOX=1'' ''--env-file''
     (fst (build_sandbox_command (example_host True None) ''run.sh'' None '''' '''' False None None))
   \<and> \<not> precedes ''--env-file'' ''KEYWORK_SANDBOX=1''
     (fst (build_sandbox_command (example_host True None) ''run.sh'' None '''' '''' False None None))"
  by (simp add: sandbox_command_segments segment_defs example_host_def dict_get_def precedes_def)

text \<open>
  C2, as amended.  The command of every call is the run arguments and the mounts,
  followed by the environment arguments and the arguments between them in this order:
  when the host has an SSH agent socket, its mount and the variable
  \<^verbatim>\<open>SSH_AUTH_SOCK=/ssh-agent\<close>; the core variables (sandbox marker, repo and goal
  name); the identity passthrough variables; the static env-file; the caller's port
  mappings; the caller's overrides; the variables of the repo configuration.  The
  volumes and ports of the repo configuration, the image, \<^verbatim>\<open>bash\<close> with the script
  and the arguments of the script end the command.
\<close>

theorem build_sandbox_command_env_order:
  "fst (build_sandbox_command h script args repo goal interactive extra_ports env_overrides) =
     run_args h interactive @ mount_args h repo goal
     @ (if dict_get (environ h) ''SSH_AUTH_SOCK'' '''' \<noteq> ''''
        then [''-v'', (if platform_system h = ''Darwin'' then ''/run/host-services/ssh-auth.sock''
                       else dict_get (environ h) ''SSH_AUTH_SOCK'' '''') @ '':/ssh-agent:ro'',
              ''-e'', ''SSH_AUTH_SOCK=/ssh-agent'']
        else [])
     @ core_env_args repo goal @ identity_args h @ env_file_args h
     @ (case extra_ports of None \<Rightarrow> [] | Some ps \<Rightarrow> port_args ps)
     @ override_args env_overrides @ repo_env_args h repo
     @ repo_mount_args h repo @ [''keywork-sandbox'', ''bash'', script]
     @ (case args of None \<Rightarrow> [] | Some as \<Rightarrow> as)"
  by (simp add: sandbox_command_segments ssh_args_def)

text \<open>A call with every layer: a host with an SSH agent socket, an author name and the
  static env-file, the repo \<^verbatim>\<open>x\<close> whose configuration declares \<^verbatim>\<open>A=2\<close>, the goal
  \<^verbatim>\<open>y\<close>, the port 8080 and the override \<^verbatim>\<open>A=1\<close>.\<close>

theorem build_sandbox_command_env_order_witness:
  "fst (build_sandbox_command
         ((example_host True (Some six_space_config))
            \<lparr>environ := [''SSH_AUTH_SOCK'' \<mapsto> ''/tmp/agent.sock'', ''GIT_AUTHOR_NAME'' \<mapsto> ''Dev'']\<rparr>)
         ''run.sh'' (Some [''--once'']) ''x'' ''y'' True (Some [8080]) (Some [(''A'', ''1'')]))
   = [''docker'', ''run'', ''--rm'', ''--name'', ''keywork-agent-01234567'', ''-it'',
      ''-v'', ''/srv/keywork/workspace/x:/workspace'',
      ''-v'', ''/srv/keywork/agents/goals/y:/state'',
      ''-v'', ''/srv/keywork/agents:/agents:ro'',
      ''-v'', ''/home/dev/.claude:/home/agent/.claude-host:ro'',
      ''-v'', ''keywork-cache:/home/agent/.cache/uv'',
      ''-v'', ''/tmp/agent.sock:/ssh-agent:ro'', ''-e'', ''SSH_AUTH_SOCK=/ssh-agent'',
      ''-e'', ''KEYWORK_SANDBOX=1'', ''-e'', ''REPO_NAME=x'', ''-e'', ''GOAL_NAME=y'',
      ''-e'', ''GIT_AUTHOR_NAME=Dev'',
      ''--env-file'', ''agents/sandbox/.env'',
      ''-p'', ''8080:8080'',
      ''-e'', ''A=1'', ''-e'', ''A=2'',
      ''keywork-sandbox'', ''bash'', ''run.sh'', ''--once'']"
  using build_sandbox_command_env_order
    [of "(example_host True (Some six_space_config))
            \<lparr>environ := [''SSH_AUTH_SOCK'' \<mapsto> ''/tmp/agent.sock'', ''GIT_AUTHOR_NAME'' \<mapsto> ''Dev'']\<rparr>"
        "''run.sh''" "Some [''--once'']" "''x''" "''y''" True "Some [8080]" "Some [(''A'', ''1'')]"]
  by (simp add: segment_defs example_host_def dict_get_def read_repo_config_six_spaces
      str_int_def str_nat.simps)

section \<open>The terminal fallback\<close>

text \<open>
  C9.  When the platform is not macOS, neither Linux terminal binary is on the PATH
  and the multiplexer variable is unset or empty, \<^verbatim>\<open>open_terminal_session\<close> raises
  nothing and returns the fallback result: no success, the method \<^verbatim>\<open>fallback\<close>, and
  the command \<^verbatim>\<open>cd <working directory> && <command>\<close>, which is not empty.
\<close>

theorem open_terminal_session_fallback:
  assumes "sys_platform d \<noteq> ''darwin''"
    and "which d ''gnome-terminal'' = None"
    and "which d ''x-terminal-emulator'' = None"
    and "dict_get (term_environ d) ''TMUX'' '''' = ''''"
  shows "open_terminal_session d command window_title working_dir =
      Inr \<lparr>success = False, method_name = ''fallback'', pid = None,
           fallback_command = Some (''cd ''
             @ (case working_dir of None \<Rightarrow> term_cwd d | Some w \<Rightarrow> w) @ '' && '' @ command)\<rparr>
    \<and> ''cd '' @ (case working_dir of None \<Rightarrow> term_cwd d | Some w \<Rightarrow> w) @ '' && '' @ command \<noteq> ''''"
  using assms
  by (simp add: open_terminal_session_def is_macos_def attempt_def fallback_def)

text \<open>A Linux desktop without terminal emulators and outside a multiplexer.\<close>

theorem open_terminal_session_fallback_witness:
  "open_terminal_session
     \<lparr>sys_platform = ''linux'', run = (\<lambda>argv. NotFound), popen = (\<lambda>argv. PopenNotFound),
      which = (\<lambda>binary. None), term_environ = Map.empty, term_cwd = ''/srv/keywork''\<rparr>
     ''bash agents/run.sh'' ''Keywork Agent'' (Some ''/srv/keywork'')
   = Inr \<lparr>success = False, method_name = ''fallback'', pid = None,
          fallback_command = Some ''cd /srv/keywork && bash agents/run.sh''\<rparr>"
  using open_terminal_session_fallback [of
     "\<lparr>sys_platform = ''linux'', run = (\<lambda>argv. NotFound), popen = (\<lambda>argv. PopenNotFound),
      which = (\<lambda>binary. None), term_environ = Map.empty, term_cwd = ''/srv/keywork''\<rparr>"
     "''bash agents/run.sh''" "''Keywork Agent''" "Some ''/srv/keywork''"]
  by (simp add: dict_get_def)

end
